theory Spec2Isabelle
  imports Main
begin

unbundle bit_operations_syntax

section \<open>Python values used by the decoder\<close>

text \<open>
  The decoder is \<^verbatim>\<open>decoders/modbus/pd.py\<close>. Python integers are unbounded, so every
  number of the source is an \<open>int\<close>; sample numbers (\<open>ss\<close>, \<open>es\<close>) are integers too.
  Exceptions are values: a method returns either an exception or its result, together
  with the state it has reached when the exception left it.
\<close>

datatype exn =
    No_more_data
  | Exception string
  | IndexError
  | KeyError
  | ValueError
  | UnboundLocalError

text \<open>\<^verbatim>\<open>xs[i]\<close>: a negative index counts from the end, anything out of range raises.\<close>

definition py_index :: "'a list \<Rightarrow> int \<Rightarrow> exn + 'a" where
  "py_index xs i =
     (if 0 \<le> i \<and> i < int (length xs) then Inr (xs ! nat i)
      else if i < 0 \<and> - int (length xs) \<le> i then Inr (xs ! nat (int (length xs) + i))
      else Inl IndexError)"

text \<open>\<^verbatim>\<open>list.index(x)\<close>: the first position of \<open>x\<close>; \<open>None\<close> stands for ValueError.\<close>

fun list_index :: "'a list \<Rightarrow> 'a \<Rightarrow> nat option" where
  "list_index [] x = None"
| "list_index (y # ys) x = (if y = x then Some 0 else map_option Suc (list_index ys x))"

text \<open>\<^verbatim>\<open>d.get(k, default)\<close> and \<^verbatim>\<open>d[k]\<close> on a dictionary literal, kept as an association list.\<close>

definition dict_get :: "('k \<times> 'v) list \<Rightarrow> 'k \<Rightarrow> 'v \<Rightarrow> 'v" where
  "dict_get d k dflt = (case map_of d k of None \<Rightarrow> dflt | Some v \<Rightarrow> v)"

definition dict_lookup :: "('k \<times> 'v) list \<Rightarrow> 'k \<Rightarrow> exn + 'v" where
  "dict_lookup d k = (case map_of d k of None \<Rightarrow> Inl KeyError | Some v \<Rightarrow> Inr v)"

subsection \<open>Number formatting (\<^verbatim>\<open>str.format\<close>)\<close>

definition digit_char :: "nat \<Rightarrow> char" where
  "digit_char d = ''0123456789ABCDEF'' ! d"

function nat_digits :: "nat \<Rightarrow> nat \<Rightarrow> string" where
  "nat_digits b n =
     (if b < 2 \<or> n < b then [digit_char n] else nat_digits b (n div b) @ [digit_char (n mod b)])"
  by pat_completeness auto
termination
  by (relation "measure snd") auto

text \<open>
  \<open>format_int b w i\<close> is \<^verbatim>\<open>format(i, "0wX")\<close> for base 16, \<^verbatim>\<open>"0wb"\<close> for base 2 and
  \<^verbatim>\<open>"d"\<close> (or the empty specification) for base 10 with \<open>w = 0\<close>: the sign first, then
  zeros up to the width, then the digits.
\<close>

definition format_int :: "nat \<Rightarrow> nat \<Rightarrow> int \<Rightarrow> string" where
  "format_int b w i =
     (let sign = (if i < 0 then ''-'' else '''');
          ds = nat_digits b (nat \<bar>i\<bar>)
      in sign @ replicate (w - length sign - length ds) (CHR ''0'') @ ds)"

abbreviation fmt_d :: "int \<Rightarrow> string" where "fmt_d \<equiv> format_int 10 0"
abbreviation fmt_X :: "int \<Rightarrow> string" where "fmt_X \<equiv> format_int 16 0"
abbreviation fmt_02X :: "int \<Rightarrow> string" where "fmt_02X \<equiv> format_int 16 2"
abbreviation fmt_04X :: "int \<Rightarrow> string" where "fmt_04X \<equiv> format_int 16 4"
abbreviation fmt_08b :: "int \<Rightarrow> string" where "fmt_08b \<equiv> format_int 2 8"

text \<open>
  \<^verbatim>\<open>chr(i)\<close>. An Isabelle string is a list of bytes, so the character is given in UTF-8;
  \<^verbatim>\<open>chr\<close> raises ValueError outside \<^verbatim>\<open>range(0x110000)\<close>.
\<close>

definition py_chr :: "int \<Rightarrow> exn + string" where
  "py_chr i =
     (if i < 0 \<or> 0x110000 \<le> i then Inl ValueError
      else if i < 0x80 then Inr [char_of i]
      else if i < 0x800 then Inr [char_of (0xC0 + i div 0x40), char_of (0x80 + i mod 0x40)]
      else if i < 0x10000 then
        Inr [char_of (0xE0 + i div 0x1000), char_of (0x80 + i div 0x40 mod 0x40),
             char_of (0x80 + i mod 0x40)]
      else
        Inr [char_of (0xF0 + i div 0x40000), char_of (0x80 + i div 0x1000 mod 0x40),
             char_of (0x80 + i div 0x40 mod 0x40), char_of (0x80 + i mod 0x40)])"

text \<open>
  \<^verbatim>\<open>message.format(v)\<close> with one positional argument, for the replacement fields the
  decoder's messages contain. Doubled braces are literal braces; a single closing
  brace, a field that is not closed, and a field specification outside the table
  raise ValueError.
\<close>

definition format_field :: "string \<Rightarrow> int \<Rightarrow> exn + string" where
  "format_field spec v =
     (if spec = '''' \<or> spec = ''0'' \<or> spec = '':d'' then Inr (fmt_d v)
      else if spec = '':X'' then Inr (fmt_X v)
      else if spec = '':02X'' then Inr (fmt_02X v)
      else if spec = '':08b'' then Inr (fmt_08b v)
      else Inl ValueError)"

fun str_format :: "string \<Rightarrow> string option \<Rightarrow> int \<Rightarrow> exn + string" where
  "str_format [] None v = Inr []"
| "str_format [] (Some spec) v = Inl ValueError"
| "str_format (c # cs) (Some spec) v =
     (if c = CHR ''}'' then
        (case format_field spec v of
           Inl e \<Rightarrow> Inl e
         | Inr s \<Rightarrow> map_sum id ((@) s) (str_format cs None v))
      else str_format cs (Some (spec @ [c])) v)"
| "str_format (c # cs) None v =
     (if c = CHR ''{'' then
        (case cs of
           [] \<Rightarrow> Inl ValueError
         | c' # cs' \<Rightarrow>
             if c' = CHR ''{'' then map_sum id ((#) c) (str_format cs' None v)
             else str_format cs (Some []) v)
      else if c = CHR ''}'' then
        (case cs of
           [] \<Rightarrow> Inl ValueError
         | c' # cs' \<Rightarrow>
             if c' = CHR ''}'' then map_sum id ((#) c) (str_format cs' None v)
             else Inl ValueError)
      else map_sum id ((#) c) (str_format cs None v))"

section \<open>The state of one message: \<^verbatim>\<open>Modbus_ADU\<close>\<close>

text \<open>\<^verbatim>\<open>class Data\<close>: one byte of the serial decoder with its first and last sample.\<close>

record Data =
  d_start :: int
  d_end :: int
  d_data :: int

text \<open>
  The two subclasses differ in \<^verbatim>\<open>parse\<close> only; the class of the object is the field
  \<open>adu_class\<close>. Several methods assign to \<^verbatim>\<open>self.mimumum_length\<close>: Python creates that
  attribute on assignment and nothing reads it, so it is a field of its own
  (\<open>None\<close> until first assigned).
\<close>

datatype adu_class = Modbus_ADU_SC | Modbus_ADU_CS

record Modbus_ADU =
  adu_class :: adu_class
  data :: "Data list"
  start :: int
  last_read :: int
  write_channel :: int
  last_byte_put :: int
  annotation_prefix :: string
  minimum_length :: int
  mimumum_length :: "int option"
  startNewFrame :: bool
  hasError :: bool

text \<open>
  An annotation as \<^verbatim>\<open>Decoder.puta\<close> hands it to \<^verbatim>\<open>put\<close>: first sample, last sample,
  number of the annotation class, message. The methods of an ADU run on the ADU and
  on the list of annotations its parent has put so far.
\<close>

type_synonym annotation = "int \<times> int \<times> nat \<times> string"

type_synonym adu_state = "Modbus_ADU \<times> annotation list"

type_synonym 'a m = "adu_state \<Rightarrow> (exn + 'a) \<times> adu_state"

definition return :: "'a \<Rightarrow> 'a m" where
  "return x = (\<lambda>s. (Inr x, s))"

definition raise :: "exn \<Rightarrow> 'a m" where
  "raise e = (\<lambda>s. (Inl e, s))"

definition bind_m :: "'a m \<Rightarrow> ('a \<Rightarrow> 'b m) \<Rightarrow> 'b m" where
  "bind_m f g = (\<lambda>s. case f s of (Inl e, s') \<Rightarrow> (Inl e, s') | (Inr x, s') \<Rightarrow> g x s')"

definition seq :: "unit m \<Rightarrow> 'b m \<Rightarrow> 'b m" where
  "seq f g = bind_m f (\<lambda>_. g)"

fun seqs :: "unit m list \<Rightarrow> unit m" where
  "seqs [] = return ()"
| "seqs [f] = f"
| "seqs (f # fs) = seq f (seqs fs)"

text \<open>Reading an attribute of \<open>self\<close>, an element of \<^verbatim>\<open>self.data\<close>, assigning an attribute.\<close>

definition get :: "(Modbus_ADU \<Rightarrow> 'a) \<Rightarrow> 'a m" where
  "get f = (\<lambda>(self, out). (Inr (f self), (self, out)))"

definition lift :: "(Modbus_ADU \<Rightarrow> exn + 'a) \<Rightarrow> 'a m" where
  "lift f = (\<lambda>(self, out). (f self, (self, out)))"

definition data_at :: "int \<Rightarrow> Data m" where
  "data_at i = lift (\<lambda>self. py_index (data self) i)"

definition modify :: "(Modbus_ADU \<Rightarrow> Modbus_ADU) \<Rightarrow> unit m" where
  "modify f = (\<lambda>(self, out). (Inr (), (f self, out)))"

text \<open>\<^verbatim>\<open>try: ... except No_more_data: pass\<close>\<close>

definition except_No_more_data :: "unit m \<Rightarrow> unit m" where
  "except_No_more_data f =
     (\<lambda>s. case f s of (Inl No_more_data, s') \<Rightarrow> (Inr (), s') | r \<Rightarrow> r)"

subsection \<open>\<^verbatim>\<open>Decoder.puta\<close>\<close>

definition annotations :: "string list" where
  "annotations =
     [''Sc-server-id'', ''Sc-function'', ''Sc-crc'', ''Sc-address'', ''Sc-data'',
      ''Sc-length'', ''Sc-error'',
      ''Cs-server-id'', ''Cs-function'', ''Cs-crc'', ''Cs-address'', ''Cs-data'',
      ''Cs-length'', ''Cs-error'',
      ''error-indication'']"

definition puta :: "int \<Rightarrow> int \<Rightarrow> string \<Rightarrow> string \<Rightarrow> unit m" where
  "puta st en annotation_channel_text message =
     (\<lambda>(self, out).
        case list_index annotations annotation_channel_text of
          None \<Rightarrow> (Inl ValueError, (self, out))
        | Some annotation_channel \<Rightarrow>
            (Inr (), (self, out @ [(st, en, annotation_channel, message)])))"

subsection \<open>The common methods of \<^verbatim>\<open>Modbus_ADU\<close>\<close>

definition put_if_needed :: "int \<Rightarrow> string \<Rightarrow> string \<Rightarrow> unit m" where
  "put_if_needed byte_to_put annotation message =
     bind_m (get (\<lambda>self. int (length (data self)))) (\<lambda>len_data.
     if byte_to_put > len_data - 1 then raise No_more_data
     else
       seq (if annotation = ''error'' then modify (\<lambda>self. self\<lparr>hasError := True\<rparr>)
            else return ())
       (bind_m (get last_byte_put) (\<lambda>lbp.
        if byte_to_put > lbp then
          bind_m (data_at (lbp + 1)) (\<lambda>first.
          bind_m (data_at byte_to_put) (\<lambda>last.
          bind_m (get annotation_prefix) (\<lambda>prefix.
          seqs [puta (d_start first) (d_end last) (prefix @ annotation) message,
                modify (\<lambda>self. self\<lparr>last_byte_put := byte_to_put\<rparr>),
                raise No_more_data])))
        else return ())))"

definition put_last_byte :: "string \<Rightarrow> string \<Rightarrow> int option \<Rightarrow> unit m" where
  "put_last_byte annotation message maximum =
     bind_m (get (\<lambda>self. int (length (data self)) - 1)) (\<lambda>last_byte_address.
     if maximum \<noteq> None \<and> last_byte_address > the maximum then return ()
     else
       bind_m (data_at (- 1)) (\<lambda>d.
       bind_m (lift (\<lambda>self. str_format message None (d_data d))) (\<lambda>formatted.
       put_if_needed last_byte_address annotation formatted)))"

text \<open>
  The checksum: one turn of the inner loop, the eight turns for one byte, and the
  outer loop over \<^verbatim>\<open>self.data[:last_byte-1]\<close>.
\<close>

definition crc_shift :: "int \<Rightarrow> int" where
  "crc_shift result =
     (let LSB = result AND 1;
          result = drop_bit 1 result
      in if LSB \<noteq> 0 then result XOR 0xA001 else result)"

definition crc_byte :: "int \<Rightarrow> int \<Rightarrow> int" where
  "crc_byte result byte = (crc_shift ^^ 8) (result XOR byte)"

definition calc_crc :: "Modbus_ADU \<Rightarrow> int \<Rightarrow> exn + int \<times> int" where
  "calc_crc self last_byte =
     (if last_byte < 3 then Inl (Exception ''Could not calculate CRC: message too short'')
      else
        let result = foldl crc_byte 0xFFFF (map d_data (take (nat (last_byte - 1)) (data self)));
            byte1 = result AND 0xFF;
            byte2 = drop_bit 8 (result AND 0xFF00)
        in Inr (byte1, byte2))"

definition check_CRC :: "int \<Rightarrow> unit m" where
  "check_CRC byte_to_put =
     bind_m (lift (\<lambda>self. calc_crc self byte_to_put)) (\<lambda>(crc_byte1, crc_byte2).
     let correct = put_if_needed byte_to_put ''crc'' ''CRC correct'';
         wrong = put_if_needed byte_to_put ''error''
                   (''CRC should be '' @ fmt_d crc_byte1 @ '' '' @ fmt_d crc_byte2)
     in
       bind_m (data_at (- 2)) (\<lambda>d2.
       if d_data d2 = crc_byte1 then
         bind_m (data_at (- 1)) (\<lambda>d1.
         if d_data d1 = crc_byte2 then correct else wrong)
       else wrong))"

definition half_word :: "int \<Rightarrow> int m" where
  "half_word start_at =
     bind_m (get (\<lambda>self. int (length (data self)))) (\<lambda>len_data.
     if start_at + 1 > len_data - 1 then raise No_more_data
     else
       bind_m (data_at start_at) (\<lambda>hi.
       bind_m (data_at (start_at + 1)) (\<lambda>lo.
       return (d_data hi * 0x100 + d_data lo))))"


definition close :: "string \<Rightarrow> int \<Rightarrow> unit m" where
  "close ScChannel message_overflow =
     bind_m (get data) (\<lambda>data'.
     bind_m (get minimum_length) (\<lambda>minimum.
     if int (length data') < minimum \<and> length data' = 0 then return ()
     else
       seqs [
         if int (length data') < minimum then
           bind_m (get last_byte_put) (\<lambda>lbp.
           bind_m (data_at lbp) (\<lambda>d.
           bind_m (get annotation_prefix) (\<lambda>prefix.
           seqs [puta (d_end d) message_overflow (prefix @ ''error'')
                   ''Message too short or not finished'',
                 modify (\<lambda>self. self\<lparr>hasError := True\<rparr>)])))
         else return (),
         bind_m (get hasError) (\<lambda>has_error.
           if has_error \<and> ScChannel = ''RX'' then
             bind_m (data_at 0) (\<lambda>first.
             bind_m (data_at (- 1)) (\<lambda>last.
             puta (d_start first) (d_end last) ''error-indication'' ''Frame contains error''))
           else return ()),
         if length data' > 256 then
           except_No_more_data
             (bind_m (get annotation_prefix) (\<lambda>prefix.
              put_if_needed (int (length data') - 1) (prefix @ ''error'')
                ''Modbus data frames are limited to 256 bytes''))
         else return ()]))"

definition parse_write_single_coil :: "unit m" where
  "parse_write_single_coil =
     seqs [
       modify (\<lambda>self. self\<lparr>minimum_length := 8\<rparr>),
       put_if_needed 1 ''function'' ''Function 5: Write Single Coil'',
       bind_m (half_word 2) (\<lambda>address.
         put_if_needed 3 ''address''
           (''Address 0x'' @ fmt_X address @ '' / '' @ fmt_d (address + 10000))),
       bind_m (half_word 4) (\<lambda>raw_value.
         put_if_needed 5 ''data''
           (if raw_value = 0x0000 then ''Coil Value OFF''
            else if raw_value = 0xFF00 then ''Coil Value ON''
            else ''Invalid Coil Value'')),
       check_CRC 7]"

definition parse_write_single_register :: "unit m" where
  "parse_write_single_register =
     seqs [
       modify (\<lambda>self. self\<lparr>minimum_length := 8\<rparr>),
       put_if_needed 1 ''function'' ''Function 6: Write Single Register'',
       bind_m (half_word 2) (\<lambda>address.
         put_if_needed 3 ''address''
           (''Address 0x'' @ fmt_X address @ '' / '' @ fmt_d (address + 30000))),
       bind_m (half_word 4) (\<lambda>v.
         put_if_needed 5 ''data'' (''Register Value 0x'' @ fmt_X v @ '' / '' @ fmt_d v)),
       check_CRC 7]"

definition diag_subfunction :: "(int \<times> string) list" where
  "diag_subfunction =
     [(0, ''Return Query data''),
      (1, ''Restart Communications Option''),
      (2, ''Return Diagnostics Register''),
      (3, ''Change ASCII Input Delimiter''),
      (4, ''Force Listen Only Mode''),
      (10, ''Clear Counters and Diagnostic Register''),
      (11, ''Return Bus Message Count''),
      (12, ''Return Bus Communication Error Count''),
      (13, ''Return Bus Exception Error Count''),
      (14, ''Return Slave Message Count''),
      (15, ''Return Slave No Response Count''),
      (16, ''Return Slave NAK Count''),
      (17, ''Return Slave Busy Count''),
      (18, ''Return Bus Character Overrun Count''),
      (20, ''Return Overrun Counter and Flag'')]"

definition parse_diagnostics :: "unit m" where
  "parse_diagnostics =
     seqs [
       modify (\<lambda>self. self\<lparr>minimum_length := 8\<rparr>),
       put_if_needed 1 ''function'' ''Function 8: Diagnostics'',
       bind_m (half_word 2) (\<lambda>subfunction.
         put_if_needed 3 ''data''
           (''Subfunction '' @ fmt_d subfunction @ '': ''
              @ dict_get diag_subfunction subfunction ''Reserved subfunction'')),
       bind_m (half_word 4) (\<lambda>diagnostic_data.
         put_if_needed 5 ''data''
           (''Data Field: '' @ fmt_d diagnostic_data @ '' / 0x'' @ fmt_04X diagnostic_data)),
       check_CRC 7]"

definition parse_mask_write_register :: "unit m" where
  "parse_mask_write_register =
     seqs [
       modify (\<lambda>self. self\<lparr>minimum_length := 10\<rparr>),
       put_if_needed 1 ''function'' ''Function 22: Mask Write Register'',
       bind_m (half_word 2) (\<lambda>address.
         put_if_needed 3 ''address''
           (''Address 0x'' @ fmt_X address @ '' / '' @ fmt_d (address + 30001))),
       bind_m (half_word 4) (\<lambda>_.
       bind_m (data_at 4) (\<lambda>and_mask_1.
       bind_m (data_at 5) (\<lambda>and_mask_2.
         put_if_needed 5 ''data''
           (''AND mask: '' @ fmt_08b (d_data and_mask_1) @ '' '' @ fmt_08b (d_data and_mask_2))))),
       bind_m (half_word 6) (\<lambda>_.
       bind_m (data_at 6) (\<lambda>or_mask_1.
       bind_m (data_at 7) (\<lambda>or_mask_2.
         put_if_needed 7 ''data''
           (''OR mask: '' @ fmt_08b (d_data or_mask_1) @ '' '' @ fmt_08b (d_data or_mask_2))))),
       check_CRC 9]"

definition not_implemented_functionname :: "(int \<times> string) list" where
  "not_implemented_functionname =
     [(20, ''Read File Record''),
      (21, ''Write File Record''),
      (24, ''Read FIFO Queue''),
      (43, ''Read Device Identification/Encapsulated Interface Transport'')]"

definition parse_not_implemented :: "unit m" where
  "parse_not_implemented =
     bind_m (data_at 1) (\<lambda>d1.
     let function = d_data d1 in
     bind_m (lift (\<lambda>_. dict_lookup not_implemented_functionname function)) (\<lambda>functionname.
     seqs [
       put_if_needed 1 ''function''
         (''Function '' @ fmt_d function @ '': '' @ functionname @ '' (not supported)''),
       put_last_byte ''data''
         ''This function is not currently supported by the sigrok modbus module'' None]))"

section \<open>\<^verbatim>\<open>Modbus_ADU_SC\<close>: server to client\<close>

definition SC_parse_read_bits :: "unit m" where
  "SC_parse_read_bits =
     seq (modify (\<lambda>self. self\<lparr>mimumum_length := Some 5\<rparr>)) (
     bind_m (data_at 1) (\<lambda>d1.
     let function = d_data d1 in
     seq (if function = 1 then put_if_needed 1 ''function'' ''Function 1: Read Coils''
          else put_if_needed 1 ''function'' ''Function 2: Read Discrete Inputs'') (
     bind_m (data_at 2) (\<lambda>d2.
     let bytecount = d_data d2 in
     seqs [
       modify (\<lambda>self. self\<lparr>minimum_length := 5 + bytecount\<rparr>),
       put_if_needed 2 ''length'' (''Byte count: '' @ fmt_d bytecount),
       put_last_byte ''data'' ''{:08b}'' (Some (bytecount + 2)),
       check_CRC (bytecount + 4)]))))"

definition SC_parse_read_registers :: "unit m" where
  "SC_parse_read_registers =
     seq (modify (\<lambda>self. self\<lparr>mimumum_length := Some 5\<rparr>)) (
     bind_m (data_at 1) (\<lambda>d1.
     let function = d_data d1 in
     seq (if function = 3 then put_if_needed 1 ''function'' ''Function 3: Read Holding Registers''
          else if function = 4 then
            put_if_needed 1 ''function'' ''Function 4: Read Input Registers''
          else if function = 23 then
            put_if_needed 1 ''function'' ''Function 23: Read/Write Multiple Registers''
          else return ()) (
     bind_m (data_at 2) (\<lambda>d2.
     let bytecount = d_data d2 in
     seqs [
       modify (\<lambda>self. self\<lparr>minimum_length := 5 + bytecount\<rparr>),
       if bytecount mod 2 = 0 then
         put_if_needed 2 ''length'' (''Byte count: '' @ fmt_d bytecount)
       else
         put_if_needed 2 ''error'' (''Error: Odd byte count ('' @ fmt_d bytecount @ '')''),
       bind_m (get (\<lambda>self. int (length (data self)))) (\<lambda>len_data.
         if len_data mod 2 = 1 then
           bind_m (half_word (- 2)) (\<lambda>register_value.
           put_last_byte ''data''
             (''0x'' @ fmt_04X register_value @ '' / '' @ fmt_d register_value)
             (Some (bytecount + 2)))
         else raise No_more_data),
       check_CRC (bytecount + 4)]))))"

definition SC_parse_read_exception_status :: "unit m" where
  "SC_parse_read_exception_status =
     seqs [
       modify (\<lambda>self. self\<lparr>mimumum_length := Some 5\<rparr>),
       put_if_needed 1 ''function'' ''Function 7: Read Exception Status'',
       bind_m (data_at 2) (\<lambda>exception_status.
         put_if_needed 2 ''data'' (''Exception status: '' @ fmt_08b (d_data exception_status))),
       check_CRC 4]"

definition SC_parse_get_comm_event_counter :: "unit m" where
  "SC_parse_get_comm_event_counter =
     seqs [
       modify (\<lambda>self. self\<lparr>mimumum_length := Some 8\<rparr>),
       put_if_needed 1 ''function'' ''Function 11: Get Comm Event Counter'',
       bind_m (half_word 2) (\<lambda>status.
         if status = 0x0000 then put_if_needed 3 ''data'' ''Status: not busy''
         else if status = 0xFFFF then put_if_needed 3 ''data'' ''Status: busy''
         else put_if_needed 3 ''error'' (''Bad status: 0x'' @ fmt_04X status)),
       bind_m (half_word 4) (\<lambda>count.
         put_if_needed 5 ''data'' (''Event Count: '' @ fmt_d count)),
       check_CRC 7]"

definition SC_parse_get_comm_event_log :: "unit m" where
  "SC_parse_get_comm_event_log =
     seqs [
       modify (\<lambda>self. self\<lparr>mimumum_length := Some 11\<rparr>),
       put_if_needed 1 ''function'' ''Function 12: Get Comm Event Log'',
       bind_m (data_at 2) (\<lambda>d2.
       let bytecount = d_data d2 in
       seqs [
         put_if_needed 2 ''length'' (''Bytecount: '' @ fmt_d bytecount),
         modify (\<lambda>self. self\<lparr>mimumum_length := Some (5 + bytecount)\<rparr>),
         bind_m (half_word 3) (\<lambda>status.
           if status = 0x0000 then put_if_needed 4 ''data'' ''Status: not busy''
           else if status = 0xFFFF then put_if_needed 4 ''data'' ''Status: busy''
           else put_if_needed 4 ''error'' (''Bad status: 0x'' @ fmt_04X status)),
         bind_m (half_word 5) (\<lambda>event_count.
           put_if_needed 6 ''data'' (''Event Count: '' @ fmt_d event_count)),
         bind_m (half_word 7) (\<lambda>message_count.
           put_if_needed 8 ''data'' (''Message Count: '' @ fmt_d message_count)),
         bind_m (data_at (- 1)) (\<lambda>last.
           put_last_byte ''data'' (''Event: 0x'' @ fmt_02X (d_data last))
             (Some (bytecount + 2))),
         check_CRC (bytecount + 4)])]"

text \<open>
  For a function code other than 15 and 16 the three local variables of
  \<^verbatim>\<open>parse_write_multiple\<close> are never assigned, and the first use raises
  UnboundLocalError.
\<close>

definition SC_parse_write_multiple :: "unit m" where
  "SC_parse_write_multiple =
     seq (modify (\<lambda>self. self\<lparr>mimumum_length := Some 8\<rparr>)) (
     bind_m (data_at 1) (\<lambda>d1.
     let function = d_data d1 in
     bind_m (lift (\<lambda>_.
        if function = 15 then Inr (''Coils'', 0x07B0, 10001)
        else if function = 16 then Inr (''Registers'', 0x007B, 30001)
        else Inl UnboundLocalError)) (\<lambda>(data_unit, max_outputs, long_address_offset).
     seqs [
       put_if_needed 1 ''function''
         (''Function '' @ fmt_d function @ '': Write Multiple '' @ data_unit),
       bind_m (half_word 2) (\<lambda>starting_address.
         let address_name = long_address_offset + starting_address in
         put_if_needed 3 ''address''
           (''Start at address 0x'' @ fmt_X starting_address @ '' / '' @ fmt_d address_name)),
       bind_m (half_word 4) (\<lambda>quantity_of_outputs.
         if quantity_of_outputs \<le> max_outputs then
           put_if_needed 5 ''data''
             (''Write '' @ fmt_d quantity_of_outputs @ '' '' @ data_unit)
         else
           put_if_needed 5 ''error''
             (''Bad value: '' @ fmt_d quantity_of_outputs @ '' '' @ data_unit
                @ ''. Max is '' @ fmt_d max_outputs)),
       check_CRC 7])))"

definition SC_parse_report_server_id :: "unit m" where
  "SC_parse_report_server_id =
     seqs [
       modify (\<lambda>self. self\<lparr>mimumum_length := Some 7\<rparr>),
       put_if_needed 1 ''function'' ''Function 17: Report Server ID'',
       bind_m (data_at 2) (\<lambda>d2.
       let bytecount = d_data d2 in
       seqs [
         put_if_needed 2 ''length'' (''Data is '' @ fmt_d bytecount @ '' bytes long''),
         bind_m (data_at 3) (\<lambda>d3.
           put_if_needed 3 ''data'' (''serverID: '' @ fmt_d (d_data d3))),
         bind_m (data_at 4) (\<lambda>d4.
           let run_indicator_status = d_data d4 in
           if run_indicator_status = 0x00 then
             put_if_needed 4 ''data'' ''Run Indicator status: Off''
           else if run_indicator_status = 0xFF then
             put_if_needed 4 ''data'' ''Run Indicator status: On''
           else
             put_if_needed 4 ''error''
               (''Bad Run Indicator status: 0x'' @ fmt_X run_indicator_status)),
         bind_m (data_at (- 1)) (\<lambda>last.
         bind_m (lift (\<lambda>_. py_chr (d_data last))) (\<lambda>c.
           put_last_byte ''data''
             (''Device specific data: '' @ fmt_d (d_data last) @ '', '' @ [CHR 0x27] @ c
                @ [CHR 0x27])
             (Some (2 + bytecount)))),
         check_CRC (4 + bytecount)])]"

definition error_functions :: "(int \<times> string) list" where
  "error_functions =
     [(1, ''Read Coils''),
      (2, ''Read Discrete Inputs''),
      (3, ''Read Holding Registers''),
      (4, ''Read Input Registers''),
      (5, ''Write Single Coil''),
      (6, ''Write Single Register''),
      (7, ''Read Exception Status''),
      (8, ''Diagnostic''),
      (11, ''Get Com Event Counter''),
      (12, ''Get Com Event Log''),
      (15, ''Write Multiple Coils''),
      (16, ''Write Multiple Registers''),
      (17, ''Report Slave ID''),
      (20, ''Read File Record''),
      (21, ''Write File Record''),
      (22, ''Mask Write Register''),
      (23, ''Read/Write Multiple Registers''),
      (24, ''Read FIFO Queue''),
      (43, ''Read Device Identification/Encapsulated Interface Transport'')]"

definition errorcodes :: "(int \<times> string) list" where
  "errorcodes =
     [(1, ''Illegal Function''),
      (2, ''Illegal Data Address''),
      (3, ''Illegal Data Value''),
      (4, ''Slave Device Failure''),
      (5, ''Acknowledge''),
      (6, ''Slave Device Busy''),
      (8, ''Memory Parity Error''),
      (10, ''Gateway Path Unavailable''),
      (11, ''Gateway Target Device failed to respond'')]"

definition SC_parse_error :: "unit m" where
  "SC_parse_error =
     seq (modify (\<lambda>self. self\<lparr>mimumum_length := Some 5\<rparr>)) (
     bind_m (data_at 1) (\<lambda>d1.
     let functioncode = d_data d1 - 0x80;
         functionname = fmt_d functioncode @ '': ''
                          @ dict_get error_functions functioncode ''Unknown function''
     in
     seqs [
       put_if_needed 1 ''function'' (''Error for function '' @ functionname),
       bind_m (data_at 2) (\<lambda>d2.
         let error = d_data d2;
             errorname = fmt_d error @ '': '' @ dict_get errorcodes error ''Unknown''
         in put_if_needed 2 ''data'' (''Error '' @ errorname)),
       check_CRC 4]))"

definition SC_parse :: "unit m" where
  "SC_parse =
     except_No_more_data (
       bind_m (data_at 0) (\<lambda>d0.
       let server_id = d_data d0;
           message = (if 1 \<le> server_id \<and> server_id \<le> 247
                      then ''Slave ID: '' @ fmt_d server_id
                      else ''Slave ID {} is invalid'')
       in
       seqs [
         put_if_needed 0 ''server-id'' message,
         bind_m (data_at 1) (\<lambda>d1.
           let function = d_data d1 in
           if function = 1 \<or> function = 2 then SC_parse_read_bits
           else if function = 3 \<or> function = 4 \<or> function = 23 then SC_parse_read_registers
           else if function = 5 then parse_write_single_coil
           else if function = 6 then parse_write_single_register
           else if function = 7 then SC_parse_read_exception_status
           else if function = 8 then parse_diagnostics
           else if function = 11 then SC_parse_get_comm_event_counter
           else if function = 12 then SC_parse_get_comm_event_log
           else if function = 15 \<or> function = 16 then SC_parse_write_multiple
           else if function = 17 then SC_parse_report_server_id
           else if function = 22 then parse_mask_write_register
           else if function \<in> {21, 21, 24, 43} then parse_not_implemented
           else if function > 0x80 then SC_parse_error
           else
             seqs [
               put_if_needed 1 ''error'' (''Unknown function: '' @ fmt_d (d_data d1)),
               put_last_byte ''error'' ''Unknown function'' None]),
         put_last_byte ''error'' ''Message too long'' None]))"

section \<open>\<^verbatim>\<open>Modbus_ADU_CS\<close>: client to server\<close>

definition read_data_functionname :: "(int \<times> string) list" where
  "read_data_functionname =
     [(1, ''Read Coils''),
      (2, ''Read Discrete Inputs''),
      (3, ''Read Holding Registers''),
      (4, ''Read Input Registers'')]"

definition CS_parse_read_data_command :: "unit m" where
  "CS_parse_read_data_command =
     seq (modify (\<lambda>self. self\<lparr>minimum_length := 8\<rparr>)) (
     bind_m (data_at 1) (\<lambda>d1.
     let function = d_data d1 in
     bind_m (lift (\<lambda>_. dict_lookup read_data_functionname function)) (\<lambda>functionname.
     seqs [
       put_if_needed 1 ''function'' (''Function '' @ fmt_d function @ '': '' @ functionname),
       bind_m (half_word 2) (\<lambda>starting_address.
         let address_name = 10000 * function + 1 + starting_address in
         put_if_needed 3 ''address''
           (''Start at address 0x'' @ fmt_X starting_address @ '' / '' @ fmt_d address_name)),
       bind_m (half_word 4) (\<lambda>units.
         put_if_needed 5 ''length'' (''Read '' @ fmt_d units @ '' units of data'')),
       check_CRC 7])))"

definition single_byte_function_name :: "(int \<times> string) list" where
  "single_byte_function_name =
     [(7, ''Read Exception Status''),
      (11, ''Get Comm Event Counter''),
      (12, ''Get Comm Event Log''),
      (17, ''Report Slave ID'')]"

definition CS_parse_single_byte_request :: "unit m" where
  "CS_parse_single_byte_request =
     bind_m (data_at 1) (\<lambda>d1.
     let function = d_data d1 in
     bind_m (lift (\<lambda>_. dict_lookup single_byte_function_name function)) (\<lambda>function_name.
     seqs [
       put_if_needed 1 ''function'' (''Function '' @ fmt_d function @ '': '' @ function_name),
       check_CRC 3]))"

text \<open>
  \<^verbatim>\<open>ratio_bytes_data\<close> is the float \<^verbatim>\<open>1/8\<close> for coils and the integer 2 for registers;
  \<^verbatim>\<open>ceil(quantity_of_outputs * ratio_bytes_data)\<close> is the quantity divided by 8 and
  rounded up, respectively twice the quantity (a quantity is two bytes, so the float
  product is exact).
\<close>

definition CS_parse_write_multiple :: "unit m" where
  "CS_parse_write_multiple =
     seq (modify (\<lambda>self. self\<lparr>mimumum_length := Some 9\<rparr>)) (
     bind_m (data_at 1) (\<lambda>d1.
     let function = d_data d1 in
     bind_m (lift (\<lambda>_.
        if function = 15 then Inr (''Coils'', 0x07B0, True, 10001)
        else if function = 16 then Inr (''Registers'', 0x007B, False, 30001)
        else Inl UnboundLocalError)) (\<lambda>(data_unit, max_outputs, eighth, long_address_offset).
     seqs [
       put_if_needed 1 ''function''
         (''Function '' @ fmt_d function @ '': Write Multiple '' @ data_unit),
       bind_m (half_word 2) (\<lambda>starting_address.
         let address_name = long_address_offset + starting_address in
         put_if_needed 3 ''address''
           (''Start at address 0x'' @ fmt_X starting_address @ '' / '' @ fmt_d address_name)),
       bind_m (half_word 4) (\<lambda>quantity_of_outputs.
       seq (if quantity_of_outputs \<le> max_outputs then
              put_if_needed 5 ''length''
                (''Write '' @ fmt_d quantity_of_outputs @ '' '' @ data_unit)
            else
              put_if_needed 5 ''error''
                (''Bad value: '' @ fmt_d quantity_of_outputs @ '' '' @ data_unit
                   @ ''. Max is '' @ fmt_d max_outputs)) (
       let proper_bytecount =
             (if eighth then - ((- quantity_of_outputs) div 8) else quantity_of_outputs * 2)
       in
       bind_m (data_at 6) (\<lambda>d6.
       let bytecount = d_data d6 in
       seqs [
         if bytecount = proper_bytecount then
           put_if_needed 6 ''length'' (''Byte count: '' @ fmt_d bytecount)
         else
           put_if_needed 6 ''error''
             (''Bad byte count, is '' @ fmt_d bytecount @ '', should be ''
                @ fmt_d proper_bytecount),
         modify (\<lambda>self. self\<lparr>mimumum_length := Some (bytecount + 9)\<rparr>),
         put_last_byte ''data'' ''Value 0x{:X}'' (Some (6 + bytecount)),
         check_CRC (bytecount + 8)])))])))"

definition CS_parse_read_write_registers :: "unit m" where
  "CS_parse_read_write_registers =
     seqs [
       modify (\<lambda>self. self\<lparr>minimum_length := 13\<rparr>),
       put_if_needed 1 ''function'' ''Function 23: Read/Write Multiple Registers'',
       bind_m (half_word 2) (\<lambda>starting_address.
       let address_name = 30001 + starting_address in
       seqs [
         put_if_needed 3 ''address''
           (''Read starting at address 0x'' @ fmt_X starting_address @ '' / ''
              @ fmt_d address_name),
         bind_m (half_word 4) (\<lambda>units.
           put_if_needed 5 ''length'' (''Read '' @ fmt_d units @ '' units of data'')),
         bind_m (half_word 6) (\<lambda>starting_address.
           put_if_needed 7 ''address''
             (''Write starting at address 0x'' @ fmt_X starting_address @ '' / ''
                @ fmt_d address_name)),
         bind_m (half_word 8) (\<lambda>quantity_of_outputs.
         seq (put_if_needed 9 ''length''
                (''Write '' @ fmt_d quantity_of_outputs @ '' registers'')) (
         let proper_bytecount = quantity_of_outputs * 2 in
         bind_m (data_at 10) (\<lambda>d10.
         let bytecount = d_data d10 in
         seqs [
           if bytecount = proper_bytecount then
             put_if_needed 10 ''length'' (''Byte count: '' @ fmt_d bytecount)
           else
             put_if_needed 10 ''error''
               (''Bad byte count, is '' @ fmt_d bytecount @ '', should be ''
                  @ fmt_d proper_bytecount),
           modify (\<lambda>self. self\<lparr>mimumum_length := Some (bytecount + 13)\<rparr>),
           put_last_byte ''data'' ''Data, value 0x{:02X}'' (Some (10 + bytecount)),
           check_CRC (bytecount + 12)])))])]"

text \<open>
  \<^verbatim>\<open>Modbus_ADU_CS.parse\<close> is a sequence of separate \<^verbatim>\<open>if\<close> statements: the last one
  (15 and 16, 22, 23, the unsupported codes, \<^verbatim>\<open>else\<close>) is also reached after one of the
  earlier ones has run to its end.
\<close>

definition CS_parse :: "unit m" where
  "CS_parse =
     except_No_more_data (
       bind_m (data_at 0) (\<lambda>d0.
       let server_id = d_data d0;
           message = (if server_id = 0 then ''Broadcast message''
                      else if 1 \<le> server_id \<and> server_id \<le> 247 then
                        ''Slave ID: '' @ fmt_d server_id
                      else if 248 \<le> server_id \<and> server_id \<le> 255 then
                        ''Slave ID: '' @ fmt_d server_id @ '' (reserved address)''
                      else [])
       in
       seqs [
         put_if_needed 0 ''server-id'' message,
         bind_m (data_at 1) (\<lambda>d1.
           let function = d_data d1 in
           seqs [
             if function \<ge> 1 \<and> function \<le> 4 then CS_parse_read_data_command else return (),
             if function = 5 then parse_write_single_coil else return (),
             if function = 6 then parse_write_single_register else return (),
             if function \<in> {7, 11, 12, 17} then CS_parse_single_byte_request
             else if function = 8 then parse_diagnostics
             else return (),
             if function \<in> {15, 16} then CS_parse_write_multiple
             else if function = 22 then parse_mask_write_register
             else if function = 23 then CS_parse_read_write_registers
             else if function \<in> {21, 21, 24, 43} then parse_not_implemented
             else
               seqs [
                 put_if_needed 1 ''error'' (''Unknown function: '' @ fmt_d (d_data d1)),
                 put_last_byte ''error'' ''Unknown function'' None]]),
         put_last_byte ''error'' ''Message too long'' None]))"

section \<open>Feeding an ADU\<close>

text \<open>
  A packet of the serial decoder: \<^verbatim>\<open>ptype\<close>, \<^verbatim>\<open>rxtx\<close> and \<^verbatim>\<open>pdata\<close>; for a \<^verbatim>\<open>'DATA'\<close>
  packet \<^verbatim>\<open>pdata[0]\<close> is the value of the byte.
\<close>

type_synonym packet = "string \<times> int \<times> int list"

definition RX :: int where "RX = 0"
definition TX :: int where "TX = 1"

definition parse :: "unit m" where
  "parse =
     bind_m (get adu_class) (\<lambda>c.
     case c of Modbus_ADU_SC \<Rightarrow> SC_parse | Modbus_ADU_CS \<Rightarrow> CS_parse)"

definition add_data :: "int \<Rightarrow> int \<Rightarrow> packet \<Rightarrow> unit m" where
  "add_data st en pkt =
     (case pkt of (ptype, rxtx, pdata) \<Rightarrow>
        seq (modify (\<lambda>self. self\<lparr>last_read := en\<rparr>))
          (if ptype = ''DATA'' then
             bind_m (lift (\<lambda>_. py_index pdata 0)) (\<lambda>v.
             seq (modify (\<lambda>self.
                    self\<lparr>data := data self @ [\<lparr>d_start = st, d_end = en, d_data = v\<rparr>]\<rparr>))
               parse)
           else return ()))"

text \<open>\<^verbatim>\<open>Modbus_ADU.__init__\<close>, for an object of class \<open>c\<close>.\<close>

definition new_ADU :: "adu_class \<Rightarrow> int \<Rightarrow> int \<Rightarrow> string \<Rightarrow> Modbus_ADU" where
  "new_ADU c st wr prefix =
     \<lparr>adu_class = c, data = [], start = st, last_read = st, write_channel = wr,
      last_byte_put = - 1, annotation_prefix = prefix, minimum_length = 4,
      mimumum_length = None, startNewFrame = False, hasError = False\<rparr>"

section \<open>The decoder\<close>

text \<open>
  \<open>puts\<close> is the list of annotations put so far, \<open>ScChannel\<close> the value of
  \<^verbatim>\<open>self.options["ScChannel"]\<close>.
\<close>

record Decoder =
  ADUSc :: "Modbus_ADU option"
  ADUCs :: "Modbus_ADU option"
  bitlength :: "int option"
  ScChannel :: string
  puts :: "annotation list"

definition new_Decoder :: "string \<Rightarrow> Decoder" where
  "new_Decoder channel =
     \<lparr>ADUSc = None, ADUCs = None, bitlength = None, ScChannel = channel, puts = []\<rparr>"

text \<open>
  An ADU is an object the decoder refers to: a method call on \<^verbatim>\<open>ADU\<close> changes
  \<^verbatim>\<open>self.ADUSc\<close> or \<^verbatim>\<open>self.ADUCs\<close> in place. \<open>selected\<close> is the object \<^verbatim>\<open>ADU\<close> names after
  the two \<^verbatim>\<open>if direction == ...\<close> statements (unbound for any other direction), and
  \<open>run_ADU\<close> runs a method on it and on the decoder's annotations.
\<close>

definition selected :: "string \<Rightarrow> Decoder \<Rightarrow> Modbus_ADU option" where
  "selected direction self =
     (if direction = ''Cs'' then ADUCs self
      else if direction = ''Sc'' then ADUSc self
      else None)"

definition update_selected :: "string \<Rightarrow> Modbus_ADU \<Rightarrow> Decoder \<Rightarrow> Decoder" where
  "update_selected direction adu self =
     (if direction = ''Cs'' then self\<lparr>ADUCs := Some adu\<rparr>
      else if direction = ''Sc'' then self\<lparr>ADUSc := Some adu\<rparr>
      else self)"

definition run_ADU :: "string \<Rightarrow> Modbus_ADU \<Rightarrow> unit m \<Rightarrow> Decoder \<Rightarrow> (exn + unit) \<times> Decoder" where
  "run_ADU direction adu f self =
     (case f (adu, puts self) of
        (r, (adu', out)) \<Rightarrow> (r, update_selected direction adu' (self\<lparr>puts := out\<rparr>)))"

text \<open>The statements of \<^verbatim>\<open>decode_ADU\<close> that create the ADU of a direction if needed.\<close>

definition select_ADU :: "string \<Rightarrow> int \<Rightarrow> Decoder \<Rightarrow> Decoder" where
  "select_ADU direction ss self =
     (let self =
            (if direction = ''Sc'' then
               (case ADUSc self of
                  None \<Rightarrow> self\<lparr>ADUSc := Some (new_ADU Modbus_ADU_SC ss TX ''Sc-'')\<rparr>
                | Some adu \<Rightarrow>
                    if startNewFrame adu
                    then self\<lparr>ADUSc := Some (new_ADU Modbus_ADU_SC ss TX ''Sc-'')\<rparr>
                    else self)
             else self)
      in
        if direction = ''Cs'' then
          (case ADUCs self of
             None \<Rightarrow> self\<lparr>ADUCs := Some (new_ADU Modbus_ADU_CS ss TX ''Cs-'')\<rparr>
           | Some adu \<Rightarrow>
               if startNewFrame adu
               then self\<lparr>ADUCs := Some (new_ADU Modbus_ADU_CS ss TX ''Cs-'')\<rparr>
               else self)
        else self)"

text \<open>
  \<^verbatim>\<open>decode_ADU\<close> calls itself after it has closed an ADU. Nothing in the code bounds the
  number of these calls, so the result is an option: \<open>None\<close> when the calls never end.
\<close>

partial_function (option) decode_ADU ::
  "Decoder \<Rightarrow> int \<Rightarrow> int \<Rightarrow> packet \<Rightarrow> string \<Rightarrow> ((exn + unit) \<times> Decoder) option" where
  "decode_ADU self ss es pkt direction =
     (case pkt of (ptype, rxtx, pdata) \<Rightarrow>
        if bitlength self = None \<and> \<not> (ptype = ''STARTBIT'' \<or> ptype = ''STOPBIT'')
        then Some (Inr (), self)
        else
          let self = (if bitlength self = None then self\<lparr>bitlength := Some (es - ss)\<rparr>
                      else self);
              self = select_ADU direction ss self
          in
            (case selected direction self of
               None \<Rightarrow> Some (Inl UnboundLocalError, self)
             | Some ADU \<Rightarrow>
                 if ss - last_read ADU \<le> the (bitlength self) * 28 then
                   Some (run_ADU direction ADU (add_data ss es pkt) self)
                 else
                   (case (if length (data ADU) > 0 then
                            run_ADU direction ADU
                              (bind_m (data_at (- 1)) (\<lambda>last.
                               close (ScChannel self)
                                 (d_end last + the (bitlength self) * 3))) self
                          else (Inr (), self)) of
                      (Inl e, self) \<Rightarrow> Some (Inl e, self)
                    | (Inr _, self) \<Rightarrow>
                        decode_ADU
                          (case selected direction self of
                             None \<Rightarrow> self
                           | Some ADU \<Rightarrow>
                               update_selected direction (ADU\<lparr>startNewFrame := True\<rparr>) self)
                          ss es pkt direction)))"

text \<open>\<^verbatim>\<open>Decoder.decode\<close>: the packet goes to one ADU, to both, or to none.\<close>

definition decode :: "Decoder \<Rightarrow> int \<Rightarrow> int \<Rightarrow> packet \<Rightarrow> ((exn + unit) \<times> Decoder) option" where
  "decode self ss es pkt =
     (case pkt of (ptype, rxtx, pdata) \<Rightarrow>
        let step = (\<lambda>cond direction r.
              case r of
                None \<Rightarrow> None
              | Some (Inl e, self) \<Rightarrow> Some (Inl e, self)
              | Some (Inr u, self) \<Rightarrow>
                  if cond self then decode_ADU self ss es pkt direction else Some (Inr u, self))
        in
          step (\<lambda>self. rxtx = RX \<and> ScChannel self = ''RX'') ''Sc''
            (step (\<lambda>self. rxtx = TX \<and> ScChannel self = ''TX'') ''Sc''
               (step (\<lambda>self. rxtx = TX) ''Cs'' (Some (Inr (), self)))))"

section \<open>Notions used to state the properties\<close>

text \<open>A value of the checksum accumulator, and a list of byte values.\<close>

definition u16 :: "int \<Rightarrow> bool" where
  "u16 r = (0 \<le> r \<and> r < 65536)"

definition byte_values :: "int list \<Rightarrow> bool" where
  "byte_values bs = (\<forall>b \<in> set bs. 0 \<le> b \<and> b < 256)"

text \<open>Bit \<open>j\<close> of byte \<open>i\<close> of the buffer flipped.\<close>

definition flip_bit :: "nat \<Rightarrow> nat \<Rightarrow> Modbus_ADU \<Rightarrow> Modbus_ADU" where
  "flip_bit i j self =
     self\<lparr>data := (data self)[i := (data self ! i)\<lparr>d_data := d_data (data self ! i) XOR 2 ^ j\<rparr>]\<rparr>"

text \<open>
  What a method reports: the annotations it adds to those put before, each as the
  name of its annotation class and its message.
\<close>

definition reported :: "unit m \<Rightarrow> adu_state \<Rightarrow> (string \<times> string) list" where
  "reported f s =
     map (\<lambda>(st, en, c, text). (annotations ! c, text)) (drop (length (snd s)) (snd (snd (f s))))"

text \<open>A buffer holding the given byte values, byte \<open>i\<close> from sample \<open>10 i\<close> to \<open>10 i + 9\<close>.\<close>

definition buffer_of :: "int list \<Rightarrow> Data list" where
  "buffer_of bs =
     map (\<lambda>(i, b). \<lparr>d_start = 10 * int i, d_end = 10 * int i + 9, d_data = b\<rparr>) (enumerate 0 bs)"

text \<open>
  The bytes of a message given to an ADU one after the other, as \<^verbatim>\<open>decode_ADU\<close> does
  with the \<^verbatim>\<open>'DATA'\<close> packets of one message. The first argument is the outcome of the
  last call with the state it left; an exception that leaves \<^verbatim>\<open>add_data\<close> ends the run.
\<close>

fun feed :: "(exn + unit) \<times> adu_state \<Rightarrow> Data list \<Rightarrow> (exn + unit) \<times> adu_state" where
  "feed (Inl e, s) ds = (Inl e, s)"
| "feed (Inr u, s) [] = (Inr u, s)"
| "feed (Inr u, s) (d # ds) =
     feed (add_data (d_start d) (d_end d) (''DATA'', TX, [d_data d]) s) ds"

text \<open>A new ADU of class \<open>c\<close>, as \<^verbatim>\<open>decode_ADU\<close> creates it, given the bytes \<open>bs\<close>.\<close>

definition run_SC :: "int list \<Rightarrow> (exn + unit) \<times> adu_state" where
  "run_SC bs = feed (Inr (), (new_ADU Modbus_ADU_SC 0 TX ''Sc-'', [])) (buffer_of bs)"

definition run_CS :: "int list \<Rightarrow> (exn + unit) \<times> adu_state" where
  "run_CS bs = feed (Inr (), (new_ADU Modbus_ADU_CS 0 TX ''Cs-'', [])) (buffer_of bs)"

text \<open>The annotations a run has put, each as the name of its class and its message.\<close>

definition named :: "annotation list \<Rightarrow> (string \<times> string) list" where
  "named out = map (\<lambda>(st, en, c, text). (annotations ! c, text)) out"

text \<open>The text \<^verbatim>\<open>Modbus_ADU_SC.parse\<close> chooses for the server identifier.\<close>

definition server_id_message :: "int \<Rightarrow> string" where
  "server_id_message server_id =
     (if 1 \<le> server_id \<and> server_id \<le> 247 then ''Slave ID: '' @ fmt_d server_id
      else ''Slave ID {} is invalid'')"

text \<open>
  A list of packets, each with its first and last sample, given to \<^verbatim>\<open>Decoder.decode\<close>
  one after the other. The first argument is the outcome of the last call; an
  exception, or a call that does not return, ends the run.
\<close>

fun decode_all ::
  "((exn + unit) \<times> Decoder) option \<Rightarrow> (int \<times> int \<times> packet) list
     \<Rightarrow> ((exn + unit) \<times> Decoder) option" where
  "decode_all None evs = None"
| "decode_all (Some (Inl e, self)) evs = Some (Inl e, self)"
| "decode_all (Some (Inr u, self)) [] = Some (Inr u, self)"
| "decode_all (Some (Inr u, self)) ((ss, es, pkt) # evs) = decode_all (decode self ss es pkt) evs"

text \<open>The ADU \<^verbatim>\<open>decode_ADU\<close> creates for a direction at the sample \<open>ss\<close>.\<close>

definition fresh_ADU :: "string \<Rightarrow> int \<Rightarrow> Modbus_ADU" where
  "fresh_ADU direction ss =
     (if direction = ''Cs'' then new_ADU Modbus_ADU_CS ss TX ''Cs-''
      else new_ADU Modbus_ADU_SC ss TX ''Sc-'')"

text \<open>
  What \<^verbatim>\<open>decode_ADU\<close> does with the current ADU when the silence before a packet is too
  long: \<^verbatim>\<open>close\<close> with a deadline three bit lengths after the last byte, if the ADU holds
  a byte at all.
\<close>

definition close_current :: "string \<Rightarrow> Modbus_ADU \<Rightarrow> int \<Rightarrow> Decoder \<Rightarrow> (exn + unit) \<times> Decoder" where
  "close_current direction ADU bl self =
     (if data ADU = [] then (Inr (), self)
      else run_ADU direction ADU
             (close (ScChannel self) (d_end (last (data ADU)) + bl * 3)) self)"

subsection \<open>The high-water mark\<close>

text \<open>
  What one method call may do to an ADU and to the annotations put so far, as a
  relation between the state before and the outcome. The buffer and the prefix stay,
  the high-water mark \<^verbatim>\<open>last_byte_put\<close> does not decrease and \<^verbatim>\<open>hasError\<close> is not reset.
  From a high-water mark of at least \<open>-1\<close> either nothing is put and the mark stays, or
  exactly one annotation is put: it starts with the byte after the old mark and ends
  with the byte of the new mark, its class is the prefix followed by the category of
  the call, and for the category \<open>error\<close> the flag \<^verbatim>\<open>hasError\<close> is set. With \<open>strict\<close> the
  call that puts an annotation ends with \<^verbatim>\<open>No_more_data\<close>.
\<close>

definition hwm_rel :: "bool \<Rightarrow> adu_state \<Rightarrow> (exn + 'a) \<times> adu_state \<Rightarrow> bool" where
  "hwm_rel strict s rs =
     (case s of (self, out) \<Rightarrow> case rs of (r, (self', out')) \<Rightarrow>
        data self' = data self \<and> annotation_prefix self' = annotation_prefix self \<and>
        last_byte_put self \<le> last_byte_put self' \<and> (hasError self \<longrightarrow> hasError self') \<and>
        (- 1 \<le> last_byte_put self \<longrightarrow>
           (out' = out \<and> last_byte_put self' = last_byte_put self) \<or>
           ((strict \<longrightarrow> r = Inl No_more_data) \<and>
            last_byte_put self < last_byte_put self' \<and>
            last_byte_put self' < int (length (data self)) \<and>
            (\<exists>ann c msg.
               list_index annotations (annotation_prefix self @ ann) = Some c \<and>
               (ann = ''error'' \<longrightarrow> hasError self') \<and>
               out' = out @ [(d_start (data self ! nat (last_byte_put self + 1)),
                              d_end (data self ! nat (last_byte_put self')), c, msg)]))))"

definition puts_once :: "'a m \<Rightarrow> bool" where
  "puts_once f = (\<forall>s. hwm_rel True s (f s))"

definition puts_at_most_once :: "'a m \<Rightarrow> bool" where
  "puts_at_most_once f = (\<forall>s. hwm_rel False s (f s))"

text \<open>The weaker relation that holds for \<^verbatim>\<open>close\<close> as well.\<close>

definition hwm_mono :: "'a m \<Rightarrow> bool" where
  "hwm_mono f =
     (\<forall>self out r self' out'. f (self, out) = (r, (self', out')) \<longrightarrow>
        data self' = data self \<and> annotation_prefix self' = annotation_prefix self \<and>
        last_byte_put self \<le> last_byte_put self' \<and> (hasError self \<longrightarrow> hasError self'))"

text \<open>
  The operations on an ADU, and a sequence of them applied one after the other. The
  state an exception leaves behind is the state the next operation finds.
\<close>

datatype adu_op =
    Add_data int int packet
  | Parse
  | Put_if_needed int string string
  | Put_last_byte string string "int option"
  | Check_CRC int
  | Close string int

fun apply_op :: "adu_op \<Rightarrow> unit m" where
  "apply_op (Add_data st en pkt) = add_data st en pkt"
| "apply_op Parse = parse"
| "apply_op (Put_if_needed b ann msg) = put_if_needed b ann msg"
| "apply_op (Put_last_byte ann msg maximum) = put_last_byte ann msg maximum"
| "apply_op (Check_CRC b) = check_CRC b"
| "apply_op (Close channel overflow) = close channel overflow"

fun apply_ops :: "adu_state \<Rightarrow> adu_op list \<Rightarrow> adu_state" where
  "apply_ops s [] = s"
| "apply_ops s (op # ops) = apply_ops (snd (apply_op op s)) ops"

fun is_close :: "adu_op \<Rightarrow> bool" where
  "is_close (Close channel overflow) = True"
| "is_close op = False"

text \<open>
  \<open>tiles ds l anns h\<close>: the annotations \<open>anns\<close>, in the order they were put, cover the
  bytes \<open>l + 1\<close> to \<open>h\<close> of the buffer \<open>ds\<close> without a gap and without an overlap; each
  starts with the byte after the end of the one before.
\<close>

inductive tiles :: "Data list \<Rightarrow> int \<Rightarrow> annotation list \<Rightarrow> int \<Rightarrow> bool" where
  tiles_none: "tiles ds l [] l"
| tiles_put:
    "tiles ds l anns m \<Longrightarrow> m < h \<Longrightarrow> h < int (length ds) \<Longrightarrow>
     tiles ds l (anns @ [(d_start (ds ! nat (m + 1)), d_end (ds ! nat h), c, msg)]) h"

text \<open>
  The same relation between two states when the buffer may have grown, as it does in
  \<^verbatim>\<open>add_data\<close>: the annotation refers to the buffer after the call.
\<close>

definition hwm_step :: "adu_state \<Rightarrow> adu_state \<Rightarrow> bool" where
  "hwm_step s s' =
     (case s of (self, out) \<Rightarrow> case s' of (self', out') \<Rightarrow>
        (\<exists>ds. data self' = data self @ ds) \<and>
        annotation_prefix self' = annotation_prefix self \<and>
        last_byte_put self \<le> last_byte_put self' \<and> (hasError self \<longrightarrow> hasError self') \<and>
        (- 1 \<le> last_byte_put self \<longrightarrow>
           (out' = out \<and> last_byte_put self' = last_byte_put self) \<or>
           (last_byte_put self < last_byte_put self' \<and>
            last_byte_put self' < int (length (data self')) \<and>
            (\<exists>ann c msg.
               list_index annotations (annotation_prefix self @ ann) = Some c \<and>
               (ann = ''error'' \<longrightarrow> hasError self') \<and>
               out' = out @ [(d_start (data self' ! nat (last_byte_put self + 1)),
                              d_end (data self' ! nat (last_byte_put self')), c, msg)]))))"

section \<open>The checksum\<close>

named_theorems m_defs \<open>the combinators of the exception and state passing\<close>

lemmas [m_defs] =
  return_def raise_def bind_m_def seq_def get_def lift_def data_at_def modify_def

lemma crc_shift_alt: "crc_shift r = (if odd r then (r div 2) XOR 0xA001 else r div 2)"
  by (simp add: crc_shift_def Let_def and_one_eq drop_bit_eq_div mod_2_eq_odd)

lemma xor_u16:
  assumes "0 \<le> x" "x < 65536" "0 \<le> y" "y < 65536"
  shows "u16 (x XOR y)"
proof -
  have "x XOR y < 2 ^ 16" by (rule XOR_upper) (use assms in simp_all)
  then show ?thesis using assms by (simp add: u16_def)
qed

lemma crc_shift_range:
  assumes "u16 r"
  shows "u16 (crc_shift r)"
proof -
  have h: "0 \<le> r div 2" "r div 2 < 65536"
    using assms unfolding u16_def by linarith+
  show ?thesis
  proof (cases "odd r")
    case True
    then show ?thesis using xor_u16 [OF h, of "0xA001"] by (simp add: crc_shift_alt)
  next
    case False
    then show ?thesis using h by (simp add: crc_shift_alt u16_def)
  qed
qed

lemma xor_cancel_right: "(a XOR c = b XOR c) = (a = (b::int))"
proof
  assume "a XOR c = b XOR c"
  then have "(a XOR c) XOR c = (b XOR c) XOR c" by simp
  then show "a = b" by (simp add: xor.assoc)
qed simp

lemma crc_shift_parity:
  assumes "u16 x" "u16 y" "odd x" "even y"
  shows "crc_shift x \<noteq> crc_shift y"
proof
  assume "crc_shift x = crc_shift y"
  then have "x div 2 XOR 0xA001 = y div 2"
    using assms by (simp add: crc_shift_alt)
  then have "(x div 2 XOR 0xA001) XOR x div 2 = y div 2 XOR x div 2" by simp
  then have eq: "0xA001 = y div 2 XOR x div 2"
    by (simp add: xor.commute xor.left_commute)
  have "0 \<le> y div 2" "y div 2 < 2 ^ 15" "x div 2 < 2 ^ 15"
    using assms(1,2) unfolding u16_def by simp_all linarith+
  then have "y div 2 XOR x div 2 < 2 ^ 15"
    by (rule XOR_upper)
  with eq show False by simp
qed

lemma crc_shift_inj:
  assumes "u16 x" "u16 y" "crc_shift x = crc_shift y"
  shows "x = y"
proof -
  have par: "odd x = odd y"
    using crc_shift_parity [of x y] crc_shift_parity [of y x] assms by metis
  have "x div 2 = y div 2"
    using assms(3) par by (simp add: crc_shift_alt xor_cancel_right split: if_splits)
  moreover have "x = 2 * (x div 2) + x mod 2" "y = 2 * (y div 2) + y mod 2" by simp_all
  moreover have "x mod 2 = y mod 2" using par by (simp add: mod_2_eq_odd)
  ultimately show ?thesis by metis
qed

lemma crc_shift_pow_range: "u16 r \<Longrightarrow> u16 ((crc_shift ^^ n) r)"
  by (induction n) (simp_all add: crc_shift_range)

lemma crc_shift_pow_inj:
  "u16 x \<Longrightarrow> u16 y \<Longrightarrow> (crc_shift ^^ n) x = (crc_shift ^^ n) y \<Longrightarrow> x = y"
proof (induction n)
  case 0
  then show ?case by simp
next
  case (Suc n)
  have "crc_shift ((crc_shift ^^ n) x) = crc_shift ((crc_shift ^^ n) y)"
    using Suc.prems(3) by simp
  then have "(crc_shift ^^ n) x = (crc_shift ^^ n) y"
    by (rule crc_shift_inj [OF crc_shift_pow_range [OF Suc.prems(1)] crc_shift_pow_range [OF Suc.prems(2)]])
  then show ?case by (rule Suc.IH [OF Suc.prems(1,2)])
qed

lemma xor_byte_range: "u16 r \<Longrightarrow> 0 \<le> b \<Longrightarrow> b < 256 \<Longrightarrow> u16 (r XOR b)"
  by (rule xor_u16) (simp_all add: u16_def)

lemma crc_byte_range: "u16 r \<Longrightarrow> 0 \<le> b \<Longrightarrow> b < 256 \<Longrightarrow> u16 (crc_byte r b)"
  unfolding crc_byte_def by (intro crc_shift_pow_range xor_byte_range)

lemma crc_byte_inj:
  assumes "u16 r" "0 \<le> b" "b < 256" "u16 r'" "0 \<le> b'" "b' < 256"
    and "crc_byte r b = crc_byte r' b'"
  shows "r XOR b = r' XOR b'"
  using assms(7) unfolding crc_byte_def
  by (rule crc_shift_pow_inj [OF xor_byte_range [OF assms(1-3)] xor_byte_range [OF assms(4-6)]])

lemma crc_fold_range: "u16 r \<Longrightarrow> byte_values bs \<Longrightarrow> u16 (foldl crc_byte r bs)"
proof (induction bs arbitrary: r)
  case Nil
  then show ?case by simp
next
  case (Cons b bs)
  then show ?case using crc_byte_range [of r b] by (simp add: byte_values_def)
qed

lemma crc_fold_inj:
  "u16 r \<Longrightarrow> u16 r' \<Longrightarrow> byte_values bs \<Longrightarrow>
   foldl crc_byte r bs = foldl crc_byte r' bs \<Longrightarrow> r = r'"
proof (induction bs arbitrary: r r')
  case Nil
  then show ?case by simp
next
  case (Cons b bs)
  have b: "0 \<le> b" "b < 256" and bs: "byte_values bs"
    using Cons.prems(3) by (simp_all add: byte_values_def)
  have "foldl crc_byte (crc_byte r b) bs = foldl crc_byte (crc_byte r' b) bs"
    using Cons.prems(4) by simp
  then have "crc_byte r b = crc_byte r' b"
    by (rule Cons.IH [OF crc_byte_range [OF Cons.prems(1) b] crc_byte_range [OF Cons.prems(2) b] bs])
  then have "r XOR b = r' XOR b"
    by (rule crc_byte_inj [OF Cons.prems(1) b Cons.prems(2) b])
  then show ?case by (simp add: xor_cancel_right)
qed

lemma crc_fold_detects:
  assumes "byte_values (pre @ b # post)" "0 \<le> b'" "b' < 256" "b' \<noteq> b"
  shows "foldl crc_byte 0xFFFF (pre @ b' # post) \<noteq> foldl crc_byte 0xFFFF (pre @ b # post)"
proof
  assume eq: "foldl crc_byte 0xFFFF (pre @ b' # post) = foldl crc_byte 0xFFFF (pre @ b # post)"
  define r where "r = foldl crc_byte 0xFFFF pre"
  have pre: "byte_values pre" and post: "byte_values post" and b: "0 \<le> b" "b < 256"
    using assms(1) by (simp_all add: byte_values_def)
  have r: "u16 r"
    unfolding r_def using pre by (intro crc_fold_range) (simp_all add: u16_def)
  have "foldl crc_byte (crc_byte r b') post = foldl crc_byte (crc_byte r b) post"
    using eq by (simp add: r_def)
  then have "crc_byte r b' = crc_byte r b"
    by (rule crc_fold_inj [OF crc_byte_range [OF r assms(2,3)] crc_byte_range [OF r b] post])
  then have "r XOR b' = r XOR b"
    by (rule crc_byte_inj [OF r assms(2,3) r b])
  then have "b' XOR r = b XOR r" by (simp add: xor.commute)
  then show False using assms(4) by (simp add: xor_cancel_right)
qed

lemma and_FF: "z AND 0xFF = z mod 256" for z :: int
proof -
  have m: "(0xFF::int) = mask 8" by (simp add: mask_eq_exp_minus_1)
  have "z AND mask 8 = z mod 2 ^ 8" by (simp only: take_bit_eq_mask [symmetric] take_bit_eq_mod)
  then show ?thesis unfolding m by simp
qed

lemma drop_and_FF00: "drop_bit 8 (z AND 0xFF00) = (z div 256) mod 256" for z :: int
proof -
  have "drop_bit 8 (z AND 0xFF00) = drop_bit 8 z AND drop_bit 8 0xFF00"
    by (simp add: drop_bit_and)
  also have "drop_bit 8 (0xFF00::int) = 0xFF" by (simp add: drop_bit_eq_div)
  finally show ?thesis by (simp add: and_FF drop_bit_eq_div)
qed

lemma crc_bytes_inj:
  assumes "u16 x" "u16 y" "x AND 0xFF = y AND 0xFF" "drop_bit 8 (x AND 0xFF00) = drop_bit 8 (y AND 0xFF00)"
  shows "x = y"
proof -
  have "x mod 256 = y mod 256" "(x div 256) mod 256 = (y div 256) mod 256"
    using assms(3,4) by (simp_all only: and_FF drop_and_FF00)
  moreover have "x div 256 < 256" "y div 256 < 256" "0 \<le> x div 256" "0 \<le> y div 256"
    using assms(1,2) unfolding u16_def by linarith+
  ultimately have "x mod 256 = y mod 256" "x div 256 = y div 256" by simp_all
  then show ?thesis by (metis mult_div_mod_eq)
qed


lemma list_index_nth: "list_index xs x = Some i \<Longrightarrow> i < length xs \<and> xs ! i = x"
  by (induction xs arbitrary: i) (auto split: if_splits)

lemma put_if_needed_emits:
  assumes "b \<le> int (length (data self)) - 1" "last_byte_put self < b" "- 1 \<le> last_byte_put self"
    and "list_index annotations (annotation_prefix self @ ann) = Some c"
  shows "put_if_needed b ann msg (self, out) =
           (Inl No_more_data,
            ((if ann = ''error'' then self\<lparr>hasError := True\<rparr> else self)\<lparr>last_byte_put := b\<rparr>,
             out @ [(d_start (data self ! nat (last_byte_put self + 1)),
                     d_end (data self ! nat b), c, msg)]))"
  using assms by (cases "ann = ''error''") (simp_all add: put_if_needed_def m_defs puta_def py_index_def)

lemma check_CRC_eval:
  assumes "calc_crc self k = Inr (c1, c2)"
    and "py_index (data self) (- 2) = Inr d2" "py_index (data self) (- 1) = Inr d1"
  shows "check_CRC k (self, out) =
           (if d_data d2 = c1 \<and> d_data d1 = c2
            then put_if_needed k ''crc'' ''CRC correct'' (self, out)
            else put_if_needed k ''error''
                   (''CRC should be '' @ fmt_d c1 @ '' '' @ fmt_d c2) (self, out))"
  using assms by (simp add: check_CRC_def m_defs Let_def)

lemma prefix_classes:
  assumes "p = ''Sc-'' \<or> p = ''Cs-''"
  shows "\<exists>c e. list_index annotations (p @ ''crc'') = Some c \<and>
               list_index annotations (p @ ''error'') = Some e"
  using assms by (auto simp: annotations_def)

lemma reported_put_if_needed:
  assumes "b \<le> int (length (data self)) - 1" "last_byte_put self < b" "- 1 \<le> last_byte_put self"
    and "list_index annotations (annotation_prefix self @ ann) = Some c"
  shows "reported (put_if_needed b ann msg) (self, out) = [(annotation_prefix self @ ann, msg)]"
  using list_index_nth [OF assms(4)]
  by (simp add: reported_def put_if_needed_emits [OF assms])


lemma py_index_last2:
  "py_index (q @ [x, y]) (- 1) = Inr y" "py_index (q @ [x, y]) (- 2) = Inr x"
proof -
  have "nat (1 + int (length q)) = Suc (length q)" "nat (int (length q)) = length q" by simp_all
  then show "py_index (q @ [x, y]) (- 1) = Inr y" "py_index (q @ [x, y]) (- 2) = Inr x"
    by (simp_all add: py_index_def nth_append)
qed

lemma reported_cong: "f s = g s \<Longrightarrow> reported f s = reported g s"
  by (simp add: reported_def)

lemma xor_bit_neq: "b XOR 2 ^ j \<noteq> (b::int)"
proof
  assume "b XOR 2 ^ j = b"
  then have "b XOR (b XOR 2 ^ j) = b XOR b" by simp
  then have "(2::int) ^ j = 0" by (simp add: xor.assoc [symmetric])
  then show False by simp
qed

lemma xor_bit_byte:
  assumes "0 \<le> b" "b < 256" "j < 8"
  shows "0 \<le> b XOR 2 ^ j \<and> b XOR 2 ^ j < (256::int)"
proof -
  have "(2::int) ^ j < 2 ^ 8" using assms(3) by (intro power_strict_increasing) simp_all
  moreover have "b < 2 ^ 8" using assms(2) by simp
  ultimately have "b XOR 2 ^ j < 2 ^ 8" using assms(1) by (intro XOR_upper)
  then show ?thesis using assms(1) by simp
qed

lemma calc_crc_eval:
  "3 \<le> k \<Longrightarrow>
   calc_crc self k =
     Inr (foldl crc_byte 0xFFFF (map d_data (take (nat (k - 1)) (data self))) AND 0xFF,
          drop_bit 8 (foldl crc_byte 0xFFFF (map d_data (take (nat (k - 1)) (data self)))
                      AND 0xFF00))"
  by (simp add: calc_crc_def Let_def)

lemma crc_pair_neq:
  assumes "byte_values bs" "byte_values bs'"
    and "foldl crc_byte 0xFFFF bs' \<noteq> foldl crc_byte 0xFFFF bs"
  shows "foldl crc_byte 0xFFFF bs' AND 0xFF \<noteq> foldl crc_byte 0xFFFF bs AND 0xFF
         \<or> drop_bit 8 (foldl crc_byte 0xFFFF bs' AND 0xFF00)
             \<noteq> drop_bit 8 (foldl crc_byte 0xFFFF bs AND 0xFF00)"
proof -
  have "u16 0xFFFF" by (simp add: u16_def)
  then have "u16 (foldl crc_byte 0xFFFF bs')" "u16 (foldl crc_byte 0xFFFF bs)"
    using assms(1,2) by (simp_all add: crc_fold_range)
  then show ?thesis using crc_bytes_inj assms(3) by blast
qed

text \<open>
  Claim C1. Take an ADU whose buffer holds at least 4 bytes, each a byte value, and
  append the two bytes \<open>calc_crc\<close> computes for it (low byte first). Then \<open>check_CRC\<close>
  on the last index reports \<open>CRC correct\<close>; and with any single bit of any byte of the
  buffer flipped, payload or checksum, it reports the error \<open>CRC should be ...\<close>.
  The ADU is one of the decoder's (prefix \<open>Sc-\<close> or \<open>Cs-\<close>) and has not yet annotated
  the checksum bytes.
\<close>

theorem checksum_round_trip:
  fixes self :: Modbus_ADU
  assumes len: "4 \<le> length (data self)"
    and bytes: "\<forall>d \<in> set (data self). 0 \<le> d_data d \<and> d_data d < 256"
    and prefix: "annotation_prefix self = ''Sc-'' \<or> annotation_prefix self = ''Cs-''"
    and hwm: "- 1 \<le> last_byte_put self" "last_byte_put self \<le> int (length (data self))"
  shows "\<exists>c1 c2. calc_crc self (int (length (data self)) + 1) = Inr (c1, c2) \<and>
    (\<forall>s1 e1 s2 e2 out.
       let k = int (length (data self)) + 1;
           full = self\<lparr>data := data self @ [\<lparr>d_start = s1, d_end = e1, d_data = c1\<rparr>,
                                                \<lparr>d_start = s2, d_end = e2, d_data = c2\<rparr>]\<rparr>
       in reported (check_CRC k) (full, out) = [(annotation_prefix self @ ''crc'', ''CRC correct'')]
          \<and> (\<forall>i < length (data full). \<forall>j < 8. \<exists>b1 b2.
               reported (check_CRC k) (flip_bit i j full, out) =
                 [(annotation_prefix self @ ''error'',
                   ''CRC should be '' @ fmt_d b1 @ '' '' @ fmt_d b2)]))"
proof -
  define p where "p = data self"
  define n where "n = length p"
  define k where "k = int n + 1"
  define bs where "bs = map d_data p"
  define crc where "crc = foldl crc_byte 0xFFFF bs"
  define c1 where "c1 = crc AND 0xFF"
  define c2 where "c2 = drop_bit 8 (crc AND 0xFF00)"
  have k3: "3 \<le> k" using len by (simp add: k_def n_def p_def)
  have bv: "byte_values bs" using bytes by (simp add: byte_values_def bs_def p_def)
  obtain cc ce where cc: "list_index annotations (annotation_prefix self @ ''crc'') = Some cc"
    and ce: "list_index annotations (annotation_prefix self @ ''error'') = Some ce"
    using prefix_classes [OF prefix] by blast
  have calc: "calc_crc self k = Inr (c1, c2)"
    unfolding calc_crc_eval [OF k3] by (simp add: k_def n_def p_def c1_def c2_def crc_def bs_def)
  have main: "reported (check_CRC k) (full, out) = [(annotation_prefix self @ ''crc'', ''CRC correct'')]
          \<and> (\<forall>i < length (data full). \<forall>j < 8. \<exists>b1 b2.
               reported (check_CRC k) (flip_bit i j full, out) =
                 [(annotation_prefix self @ ''error'',
                   ''CRC should be '' @ fmt_d b1 @ '' '' @ fmt_d b2)])"
    if full: "full = self\<lparr>data := p @ [\<lparr>d_start = s1, d_end = e1, d_data = c1\<rparr>,
                                          \<lparr>d_start = s2, d_end = e2, d_data = c2\<rparr>]\<rparr>"
    for full s1 e1 s2 e2 out
  proof -
    let ?X = "\<lparr>d_start = s1, d_end = e1, d_data = c1\<rparr>"
    let ?Y = "\<lparr>d_start = s2, d_end = e2, d_data = c2\<rparr>"
    have shape: "length (data g) = n + 2 \<Longrightarrow> last_byte_put g = last_byte_put self \<Longrightarrow>
        annotation_prefix g = annotation_prefix self \<Longrightarrow>
        reported (put_if_needed k ann msg) (g, out) = [(annotation_prefix self @ ann, msg)]"
      if "list_index annotations (annotation_prefix self @ ann) = Some c" for g ann msg c
      using that hwm reported_put_if_needed [of k g ann c msg out]
      by (simp add: k_def n_def p_def)
    have eval: "reported (check_CRC k) (g, out) =
           (if d_data x = b1 \<and> d_data y = b2
            then reported (put_if_needed k ''crc'' ''CRC correct'') (g, out)
            else reported (put_if_needed k ''error''
                   (''CRC should be '' @ fmt_d b1 @ '' '' @ fmt_d b2)) (g, out))"
      if "data g = q @ [x, y]" "calc_crc g k = Inr (b1, b2)" for g q x y b1 b2
    proof -
      have "check_CRC k (g, out) =
           (if d_data x = b1 \<and> d_data y = b2
            then put_if_needed k ''crc'' ''CRC correct'' (g, out)
            else put_if_needed k ''error''
                   (''CRC should be '' @ fmt_d b1 @ '' '' @ fmt_d b2) (g, out))"
        by (rule check_CRC_eval [OF that(2)]) (simp_all only: that(1) py_index_last2)
      then show ?thesis by (simp add: reported_def)
    qed
    have calc_g: "calc_crc g k =
        Inr (foldl crc_byte 0xFFFF (map d_data q) AND 0xFF,
             drop_bit 8 (foldl crc_byte 0xFFFF (map d_data q) AND 0xFF00))"
      if "data g = q @ [x, y]" "length q = n" for g q x y
      unfolding calc_crc_eval [OF k3] using that by (simp add: k_def)
    have calc_full: "calc_crc full k = Inr (c1, c2)"
      using calc_g [of full p ?X ?Y] by (simp add: full n_def c1_def c2_def crc_def bs_def)

    have ok: "reported (check_CRC k) (full, out) = [(annotation_prefix self @ ''crc'', ''CRC correct'')]"
      using eval [of full p ?X ?Y c1 c2] calc_full shape [OF cc, of full]
      by (simp add: full n_def)

    have bad: "\<exists>b1 b2. reported (check_CRC k) (flip_bit i j full, out) =
                 [(annotation_prefix self @ ''error'',
                   ''CRC should be '' @ fmt_d b1 @ '' '' @ fmt_d b2)]"
      if i: "i < n + 2" and j: "j < 8" for i j
    proof -
      let ?g = "flip_bit i j full"
      have g_shape: "length (data ?g) = n + 2" "last_byte_put ?g = last_byte_put self"
        "annotation_prefix ?g = annotation_prefix self"
        by (simp_all add: flip_bit_def full n_def)
      consider (payload) "i < n" | (first) "i = n" | (second) "i = Suc n"
        using i by linarith
      then show ?thesis
      proof cases
        case payload
        define b' where "b' = bs ! i XOR 2 ^ j"
        define q where "q = p[i := (p ! i)\<lparr>d_data := b'\<rparr>]"
        have dg: "data ?g = q @ [?X, ?Y]"
          using payload by (simp add: flip_bit_def full q_def b'_def bs_def n_def
              list_update_append nth_append)
        have bi: "0 \<le> bs ! i" "bs ! i < 256"
          using bv payload by (simp_all add: byte_values_def bs_def n_def)
        have b': "0 \<le> b'" "b' < 256" "b' \<noteq> bs ! i"
          using xor_bit_byte [OF bi j] xor_bit_neq [of "bs ! i" j] by (simp_all add: b'_def)
        have "i < length bs" using payload by (simp add: bs_def n_def)
        then have split: "bs = take i bs @ bs ! i # drop (Suc i) bs"
          by (rule id_take_nth_drop)
        have "map d_data q = bs[i := b']"
          by (simp add: q_def bs_def map_update)
        then have q_bs: "map d_data q = take i bs @ b' # drop (Suc i) bs"
          using \<open>i < length bs\<close> by (simp only: upd_conv_take_nth_drop)
        have "foldl crc_byte 0xFFFF (take i bs @ b' # drop (Suc i) bs)
                \<noteq> foldl crc_byte 0xFFFF (take i bs @ bs ! i # drop (Suc i) bs)"
          using bv split b' by (intro crc_fold_detects) simp_all
        then have neq: "foldl crc_byte 0xFFFF (map d_data q) \<noteq> crc"
          using split q_bs by (simp add: crc_def)
        have "byte_values (map d_data q)"
          unfolding q_bs using bv b' split
          by (metis byte_values_def set_ConsD Un_iff set_append in_set_takeD in_set_dropD)
        from crc_pair_neq [OF bv this] neq
        have pair: "foldl crc_byte 0xFFFF (map d_data q) AND 0xFF \<noteq> c1
              \<or> drop_bit 8 (foldl crc_byte 0xFFFF (map d_data q) AND 0xFF00) \<noteq> c2"
          by (simp add: c1_def c2_def crc_def)
        have "length q = n" by (simp add: q_def n_def)
        from calc_g [OF dg this] eval [OF dg] pair shape [OF ce g_shape]
        show ?thesis by auto
      next
        case first
        have dg: "data ?g = p @ [?X\<lparr>d_data := c1 XOR 2 ^ j\<rparr>, ?Y]"
          using first by (simp add: flip_bit_def full n_def list_update_append nth_append)
        have "calc_crc ?g k = Inr (c1, c2)"
          using calc_g [OF dg] by (simp add: n_def c1_def c2_def crc_def bs_def)
        from eval [OF dg this] xor_bit_neq [of c1 j] shape [OF ce g_shape]
        show ?thesis by auto
      next
        case second
        have dg: "data ?g = p @ [?X, ?Y\<lparr>d_data := c2 XOR 2 ^ j\<rparr>]"
          using second by (simp add: flip_bit_def full n_def list_update_append nth_append)
        have "calc_crc ?g k = Inr (c1, c2)"
          using calc_g [OF dg] by (simp add: n_def c1_def c2_def crc_def bs_def)
        from eval [OF dg this] xor_bit_neq [of c2 j] shape [OF ce g_shape]
        show ?thesis by auto
      qed
    qed
    show ?thesis using ok bad by (simp add: full n_def)
  qed
  show ?thesis
    using calc main unfolding k_def n_def p_def Let_def by blast
qed

text \<open>
  The theorem at the request of the specification's scenario A: the bytes
  \<open>11 05 00 AC FF 00\<close> with their checksum \<open>4E 8B\<close>, and the same buffer with the lowest
  bit of byte 3 flipped.
\<close>

theorem checksum_round_trip_witness:
  "reported (check_CRC 7)
     ((new_ADU Modbus_ADU_CS 0 TX ''Cs-'')
        \<lparr>data := buffer_of [0x11, 0x05, 0x00, 0xAC, 0xFF, 0x00]
                  @ [\<lparr>d_start = 60, d_end = 69, d_data = 0x4E\<rparr>,
                     \<lparr>d_start = 70, d_end = 79, d_data = 0x8B\<rparr>]\<rparr>, [])
     = [(''Cs-crc'', ''CRC correct'')]
   \<and> (\<exists>b1 b2.
        reported (check_CRC 7)
          (flip_bit 3 0
             ((new_ADU Modbus_ADU_CS 0 TX ''Cs-'')
                \<lparr>data := buffer_of [0x11, 0x05, 0x00, 0xAC, 0xFF, 0x00]
                          @ [\<lparr>d_start = 60, d_end = 69, d_data = 0x4E\<rparr>,
                             \<lparr>d_start = 70, d_end = 79, d_data = 0x8B\<rparr>]\<rparr>), [])
        = [(''Cs-error'', ''CRC should be '' @ fmt_d b1 @ '' '' @ fmt_d b2)])"
proof -
  define self where
    "self = (new_ADU Modbus_ADU_CS 0 TX ''Cs-'')\<lparr>data := buffer_of [0x11, 0x05, 0x00, 0xAC, 0xFF, 0x00]\<rparr>"
  have d: "data self = buffer_of [0x11, 0x05, 0x00, 0xAC, 0xFF, 0x00]"
    and p: "annotation_prefix self = ''Cs-''" and l: "last_byte_put self = - 1"
    by (simp_all add: self_def new_ADU_def)
  have n: "length (data self) = 6" by (simp add: d buffer_of_def)
  have h1: "4 \<le> length (data self)" by (simp add: n)
  have h2: "\<forall>d \<in> set (data self). 0 \<le> d_data d \<and> d_data d < 256"
    by (simp add: d buffer_of_def enumerate_eq_zip upt_rec)
  have h3: "annotation_prefix self = ''Sc-'' \<or> annotation_prefix self = ''Cs-''" by (simp add: p)
  have h4: "- 1 \<le> last_byte_put self" "last_byte_put self \<le> int (length (data self))"
    by (simp_all add: l)
  have calc: "calc_crc self 7 = Inr (0x4E, 0x8B)"
    unfolding self_def by code_simp
  from checksum_round_trip [OF h1 h2 h3 h4] calc
  have "\<forall>s1 e1 s2 e2 out.
       let k = int (length (data self)) + 1;
           full = self\<lparr>data := data self @ [\<lparr>d_start = s1, d_end = e1, d_data = 0x4E\<rparr>,
                                                \<lparr>d_start = s2, d_end = e2, d_data = 0x8B\<rparr>]\<rparr>
       in reported (check_CRC k) (full, out) = [(annotation_prefix self @ ''crc'', ''CRC correct'')]
          \<and> (\<forall>i < length (data full). \<forall>j < 8. \<exists>b1 b2.
               reported (check_CRC k) (flip_bit i j full, out) =
                 [(annotation_prefix self @ ''error'',
                   ''CRC should be '' @ fmt_d b1 @ '' '' @ fmt_d b2)])"
    by (simp add: n)
  then have "reported (check_CRC 7) (self\<lparr>data := data self @ [\<lparr>d_start = 60, d_end = 69, d_data = 0x4E\<rparr>,
                                                \<lparr>d_start = 70, d_end = 79, d_data = 0x8B\<rparr>]\<rparr>, []) = [(''Cs-crc'', ''CRC correct'')]
    \<and> (\<forall>i < 8. \<forall>j < 8. \<exists>b1 b2.
               reported (check_CRC 7) (flip_bit i j (self\<lparr>data := data self @ [\<lparr>d_start = 60, d_end = 69, d_data = 0x4E\<rparr>,
                                                \<lparr>d_start = 70, d_end = 79, d_data = 0x8B\<rparr>]\<rparr>), []) =
                 [(''Cs-error'', ''CRC should be '' @ fmt_d b1 @ '' '' @ fmt_d b2)])"
    unfolding Let_def n p by (simp add: n)
  then show ?thesis
    by (simp add: self_def d [unfolded self_def])
qed

section \<open>Running the decoder on concrete bytes\<close>

named_theorems run \<open>the methods applied to a state\<close>

lemma return_apply [run]: "return x s = (Inr x, s)"
  by (simp add: return_def)

lemma raise_apply [run]: "raise e s = (Inl e, s)"
  by (simp add: raise_def)

lemma bind_m_apply [run]:
  "bind_m f g s = (case f s of (Inl e, s') \<Rightarrow> (Inl e, s') | (Inr x, s') \<Rightarrow> g x s')"
  by (simp add: bind_m_def)

lemma seq_apply [run]:
  "seq f g s = (case f s of (Inl e, s') \<Rightarrow> (Inl e, s') | (Inr x, s') \<Rightarrow> g s')"
  by (simp add: seq_def bind_m_def)

lemma seqs_apply [run]:
  "seqs [] s = (Inr (), s)"
  "seqs [f] s = f s"
  "seqs (f # g # fs) s = seq f (seqs (g # fs)) s"
  by (simp_all add: return_def)

lemma get_apply [run]: "get f (self, out) = (Inr (f self), (self, out))"
  by (simp add: get_def)

lemma lift_apply [run]: "lift f (self, out) = (f self, (self, out))"
  by (simp add: lift_def)

lemma data_at_apply [run]: "data_at i (self, out) = (py_index (data self) i, (self, out))"
  by (simp add: data_at_def lift_def)

lemma modify_apply [run]: "modify f (self, out) = (Inr (), (f self, out))"
  by (simp add: modify_def)

lemma except_No_more_data_apply [run]:
  "except_No_more_data f s =
     (case f s of (Inl No_more_data, s') \<Rightarrow> (Inr (), s') | r \<Rightarrow> r)"
  by (simp add: except_No_more_data_def)

lemma replicate_numeral [run]:
  "replicate (numeral k) x = x # replicate (pred_numeral k) x"
  by (simp add: numeral_eq_Suc)

lemma puta_apply [run]:
  "puta st en name message (self, out) =
     (case list_index annotations name of
        None \<Rightarrow> (Inl ValueError, (self, out))
      | Some c \<Rightarrow> (Inr (), (self, out @ [(st, en, c, message)])))"
  by (simp add: puta_def)

lemmas [run] =
  put_if_needed_def [THEN fun_cong] put_last_byte_def [THEN fun_cong]
  check_CRC_def [THEN fun_cong] half_word_def [THEN fun_cong] close_def [THEN fun_cong]
  parse_def [THEN fun_cong] SC_parse_def [THEN fun_cong] CS_parse_def [THEN fun_cong]
  add_data_def [THEN fun_cong]
  parse_write_single_coil_def [THEN fun_cong] parse_write_single_register_def [THEN fun_cong]
  parse_diagnostics_def [THEN fun_cong] parse_mask_write_register_def [THEN fun_cong]
  parse_not_implemented_def [THEN fun_cong]
  SC_parse_read_bits_def [THEN fun_cong] SC_parse_read_registers_def [THEN fun_cong]
  SC_parse_read_exception_status_def [THEN fun_cong]
  SC_parse_get_comm_event_counter_def [THEN fun_cong]
  SC_parse_get_comm_event_log_def [THEN fun_cong] SC_parse_write_multiple_def [THEN fun_cong]
  SC_parse_report_server_id_def [THEN fun_cong] SC_parse_error_def [THEN fun_cong]
  CS_parse_read_data_command_def [THEN fun_cong] CS_parse_single_byte_request_def [THEN fun_cong]
  CS_parse_write_multiple_def [THEN fun_cong] CS_parse_read_write_registers_def [THEN fun_cong]
  run_SC_def run_CS_def new_ADU_def buffer_of_def TX_def annotations_def named_def
  enumerate_eq_zip upt_rec Let_def py_index_def calc_crc_def
  format_int_def digit_char_def dict_get_def dict_lookup_def format_field_def

text \<open>
  Congruence rules that keep the simplifier out of a method that is not yet applied to
  a state and out of the branches of a case distinction that is not yet decided, so
  that a run on concrete bytes is evaluated statement by statement.
\<close>

lemma bind_m_cong: "bind_m f g = bind_m f g" by simp
lemma seq_cong: "seq f g = seq f g" by simp
lemma seqs_cong: "seqs fs = seqs fs" by simp
lemma except_cong: "except_No_more_data f = except_No_more_data f" by simp

lemmas run_cong = bind_m_cong seq_cong seqs_cong except_cong let_weak_cong prod.case_cong_weak
  sum.case_cong_weak option.case_cong_weak exn.case_cong_weak adu_class.case_cong_weak

section \<open>The dispatch on the server identifier and the function code\<close>

text \<open>
  Claim C10. For a server-to-client ADU that has not annotated byte 0 yet and whose
  first byte is outside 1..247, the parse step puts one annotation, of class
  \<open>Sc-server-id\<close> (number 0), over byte 0, and its text is the literal
  \<open>Slave ID {} is invalid\<close>: the placeholder is not replaced.
\<close>

theorem invalid_slave_id_literal:
  assumes "adu_class self = Modbus_ADU_SC" and "annotation_prefix self = ''Sc-''"
    and "last_byte_put self = - 1" and "data self = d0 # ds"
    and "\<not> (1 \<le> d_data d0 \<and> d_data d0 \<le> 247)"
  shows "parse (self, out) =
           (Inr (), (self\<lparr>last_byte_put := 0\<rparr>,
                     out @ [(d_start d0, d_end d0, 0, ''Slave ID {} is invalid'')]))
         \<and> annotations ! 0 = ''Sc-server-id''"
  using assms
  by (simp add: parse_def SC_parse_def put_if_needed_def except_No_more_data_def puta_def
      py_index_def annotations_def Let_def m_defs)

theorem invalid_slave_id_literal_witness:
  "parse ((new_ADU Modbus_ADU_SC 0 TX ''Sc-'')\<lparr>data := buffer_of [250]\<rparr>, []) =
     (Inr (), ((new_ADU Modbus_ADU_SC 0 TX ''Sc-'')\<lparr>data := buffer_of [250], last_byte_put := 0\<rparr>,
               [(0, 9, 0, ''Slave ID {} is invalid'')]))
   \<and> annotations ! 0 = ''Sc-server-id''"
  using invalid_slave_id_literal [of "(new_ADU Modbus_ADU_SC 0 TX ''Sc-'')\<lparr>data := buffer_of [250]\<rparr>"
      "\<lparr>d_start = 0, d_end = 9, d_data = 250\<rparr>" "[]" "[]"]
  by (simp add: new_ADU_def buffer_of_def enumerate_eq_zip upt_rec)

text \<open>
  Claim C6, as the specification states it, fails for the function code \<open>0x80\<close>: its
  high bit is set, but \<^verbatim>\<open>Modbus_ADU_SC.parse\<close> tests \<^verbatim>\<open>function > 0x80\<close>, and the byte is
  reported as an unknown function.
\<close>

theorem exception_response_0x80_counterexample:
  "named (snd (snd (run_SC [1, 0x80, 2]))) =
     [(''Sc-server-id'', ''Slave ID: 1''),
      (''Sc-error'', ''Unknown function: 128''),
      (''Sc-error'', ''Unknown function'')]"
  by (simp add: run cong: run_cong)

text \<open>
  Claim C6, amended: for a function code greater than \<open>0x80\<close>. The first three bytes
  of a server-to-client message, given to a new ADU one after the other, are annotated
  as the server identifier, as \<open>Error for function n: name\<close> with \<open>n\<close> the code minus
  \<open>0x80\<close> and the name from the table of functions (\<open>Unknown function\<close> when absent),
  and as \<open>Error e: reason\<close> with the reason from the table of exception codes
  (\<open>Unknown\<close> when absent). That table has 9 entries.
\<close>

theorem exception_response:
  assumes "0x80 < d_data d1"
  shows "named (snd (snd (feed (Inr (), (new_ADU Modbus_ADU_SC st wr ''Sc-'', [])) [d0, d1, d2]))) =
     [(''Sc-server-id'', server_id_message (d_data d0)),
      (''Sc-function'',
         ''Error for function '' @ fmt_d (d_data d1 - 0x80) @ '': ''
           @ dict_get error_functions (d_data d1 - 0x80) ''Unknown function''),
      (''Sc-data'',
         ''Error '' @ fmt_d (d_data d2) @ '': '' @ dict_get errorcodes (d_data d2) ''Unknown'')]
     \<and> length errorcodes = 9"
  using assms
  by (simp add: parse_def add_data_def put_if_needed_def except_No_more_data_def puta_def
      py_index_def new_ADU_def TX_def annotations_def named_def Let_def m_defs SC_parse_def
      SC_parse_error_def server_id_message_def errorcodes_def)

text \<open>
  The theorem at the function code \<open>0x85\<close>: an error response for function 5, Write
  Single Coil, here with the exception code 2; and at the exception code 9, which is
  not in the table.
\<close>

theorem exception_response_witness:
  "named (snd (snd (run_SC [0x11, 0x85, 2]))) =
     [(''Sc-server-id'', ''Slave ID: 17''),
      (''Sc-function'', ''Error for function 5: Write Single Coil''),
      (''Sc-data'', ''Error 2: Illegal Data Address'')]
   \<and> named (snd (snd (run_SC [0x11, 0x85, 9]))) =
     [(''Sc-server-id'', ''Slave ID: 17''),
      (''Sc-function'', ''Error for function 5: Write Single Coil''),
      (''Sc-data'', ''Error 9: Unknown'')]"
  using exception_response [of "\<lparr>d_start = 10, d_end = 19, d_data = 0x85\<rparr>" 0 TX
      "\<lparr>d_start = 0, d_end = 9, d_data = 0x11\<rparr>" "\<lparr>d_start = 20, d_end = 29, d_data = 2\<rparr>"]
    exception_response [of "\<lparr>d_start = 10, d_end = 19, d_data = 0x85\<rparr>" 0 TX
      "\<lparr>d_start = 0, d_end = 9, d_data = 0x11\<rparr>" "\<lparr>d_start = 20, d_end = 29, d_data = 9\<rparr>"]
  by (simp add: run_SC_def buffer_of_def enumerate_eq_zip upt_rec server_id_message_def
      format_int_def digit_char_def dict_get_def error_functions_def errorcodes_def)

text \<open>
  Claim C7 holds for the codes 21, 24 and 43 and fails for the code 20: both \<^verbatim>\<open>parse\<close>
  methods test \<^verbatim>\<open>function in {21, 21, 24, 43}\<close>, so a message with the function code 20
  is reported as an unknown function, in either direction.
\<close>

theorem function_20_not_recognized:
  "named (snd (snd (run_SC [1, 20, 0]))) =
     [(''Sc-server-id'', ''Slave ID: 1''),
      (''Sc-error'', ''Unknown function: 20''),
      (''Sc-error'', ''Unknown function'')]
   \<and> named (snd (snd (run_CS [1, 20, 0]))) =
     [(''Cs-server-id'', ''Slave ID: 1''),
      (''Cs-error'', ''Unknown function: 20''),
      (''Cs-error'', ''Unknown function'')]"
  by (simp add: run cong: run_cong)

lemma functions_21_24_43_not_supported:
  "named (snd (snd (run_SC [1, 21, 0, 0]))) =
     [(''Sc-server-id'', ''Slave ID: 1''),
      (''Sc-function'', ''Function 21: Write File Record (not supported)''),
      (''Sc-data'', ''This function is not currently supported by the sigrok modbus module''),
      (''Sc-data'', ''This function is not currently supported by the sigrok modbus module'')]"
  "named (snd (snd (run_CS [1, 24, 0, 0]))) =
     [(''Cs-server-id'', ''Slave ID: 1''),
      (''Cs-function'', ''Function 24: Read FIFO Queue (not supported)''),
      (''Cs-data'', ''This function is not currently supported by the sigrok modbus module''),
      (''Cs-data'', ''This function is not currently supported by the sigrok modbus module'')]"
  "named (snd (snd (run_CS [1, 43, 0]))) =
     [(''Cs-server-id'', ''Slave ID: 1''),
      (''Cs-function'',
       ''Function 43: Read Device Identification/Encapsulated Interface Transport (not supported)''),
      (''Cs-data'', ''This function is not currently supported by the sigrok modbus module'')]"
  by (simp_all add: run not_implemented_functionname_def cong: run_cong)

section \<open>The expected length and the checksum position\<close>

text \<open>
  Claim C5 fails on the code for a client-to-server Write Multiple request:
  \<^verbatim>\<open>Modbus_ADU_CS.parse_write_multiple\<close> assigns \<^verbatim>\<open>bytecount + 9\<close> to the misspelt attribute
  \<^verbatim>\<open>mimumum_length\<close>, so \<^verbatim>\<open>minimum_length\<close> stays 4. The request below announces 2 data
  bytes (11 bytes in all) and stops after 8; no error has been put, and \<^verbatim>\<open>close\<close> puts
  nothing.
\<close>

theorem write_multiple_minimum_length_not_refined:
  "(let s = snd (run_CS [1, 16, 0, 0, 0, 1, 2, 0])
    in named (snd s) =
         [(''Cs-server-id'', ''Slave ID: 1''),
          (''Cs-function'', ''Function 16: Write Multiple Registers''),
          (''Cs-address'', ''Start at address 0x0 / 30001''),
          (''Cs-length'', ''Write 1 Registers''),
          (''Cs-length'', ''Byte count: 2''),
          (''Cs-data'', ''Value 0x0'')]
       \<and> length (data (fst s)) = 8
       \<and> minimum_length (fst s) = 4
       \<and> mimumum_length (fst s) = Some 11
       \<and> reported (close ''RX'' 82) s = [])"
  by (simp add: run reported_def cong: run_cong)

text \<open>
  Claim C2 fails on the code: \<^verbatim>\<open>check_CRC\<close> compares the computed bytes with the last two
  bytes of the buffer, \<^verbatim>\<open>data[-2]\<close> and \<^verbatim>\<open>data[-1]\<close>, whatever \<^verbatim>\<open>byte_to_put\<close> is. In the
  server-to-client message below (function 3 with the odd byte count 1) the checksum of
  the first four bytes is \<open>240 72\<close>, and these are the bytes at the positions 4 and 5.
  The parse step skips the buffers of even length, so the checksum is first put when
  the buffer holds 7 bytes: the bytes compared are those at 5 and 6, and the
  annotation over the bytes 3 to 5 is the error \<open>CRC should be 240 72\<close>.
\<close>

lemma crc_of_01_03_01_00: "crc_byte (crc_byte (crc_byte (crc_byte 65535 1) 3) 1) 0 = 0x48F0"
  by code_simp

theorem check_CRC_compares_last_bytes:
  "(let s = snd (run_SC [1, 3, 1, 0, 240, 72, 0])
    in named (snd s) =
         [(''Sc-server-id'', ''Slave ID: 1''),
          (''Sc-function'', ''Function 3: Read Holding Registers''),
          (''Sc-error'', ''Error: Odd byte count (1)''),
          (''Sc-error'', ''CRC should be 240 72'')]
       \<and> calc_crc (fst s) 5 = Inr (240, 72)
       \<and> map d_data (data (fst s)) = [1, 3, 1, 0, 240, 72, 0])"
  by (simp add: run crc_of_01_03_01_00 cong: run_cong)

section \<open>The frame assembler\<close>

text \<open>
  Claim C8, amended. While the bit length is unknown, a packet that is neither a start
  bit nor a stop bit is dropped: \<^verbatim>\<open>decode_ADU\<close> returns at once and leaves the decoder as
  it was, so a data byte is not kept anywhere.
\<close>

theorem bytes_before_bitlength_discarded:
  assumes "bitlength self = None" and "ptype \<noteq> ''STARTBIT''" and "ptype \<noteq> ''STOPBIT''"
  shows "decode_ADU self ss es (ptype, rxtx, pdata) direction = Some (Inr (), self)"
  using assms by (subst decode_ADU.simps) simp

theorem bytes_before_bitlength_discarded_witness:
  "decode_ADU (new_Decoder ''RX'') 0 9 (''DATA'', TX, [0x11]) ''Cs'' = Some (Inr (), new_Decoder ''RX'')"
  using bytes_before_bitlength_discarded [of "new_Decoder ''RX''" "''DATA''" 0 9 TX "[0x11]" "''Cs''"]
  by (simp add: new_Decoder_def)

text \<open>
  Claim C8, as the specification states it, fails: the byte \<open>0x11\<close> arrives before the
  first start bit, and after the start bit and a second byte the decoder holds the
  second byte only and has put the annotation of the second byte only.
\<close>

lemmas decoder_run =
  decode_def decode_ADU.simps select_ADU_def selected_def update_selected_def run_ADU_def
  new_Decoder_def RX_def

theorem byte_before_bitlength_lost_counterexample:
  "decode_all (Some (Inr (), new_Decoder ''RX''))
     [(0, 9, (''DATA'', TX, [0x11])),
      (20, 21, (''STARTBIT'', TX, [0])),
      (21, 29, (''DATA'', TX, [0x05]))] =
   Some (Inr (),
     \<lparr>ADUSc = None,
      ADUCs = Some ((new_ADU Modbus_ADU_CS 20 TX ''Cs-'')
                \<lparr>data := [\<lparr>d_start = 21, d_end = 29, d_data = 0x05\<rparr>],
                 last_read := 29, last_byte_put := 0\<rparr>),
      bitlength = Some 1, ScChannel = ''RX'',
      puts = [(21, 29, 7, ''Slave ID: 5'')]\<rparr>)"
  by (simp add: decoder_run run cong: run_cong)

subsection \<open>The decision between the current ADU and a new one\<close>

lemma add_data_DATA:
  "add_data ss es (''DATA'', rxtx, v # vs) (ADU, out) =
     parse (ADU\<lparr>last_read := es, data := data ADU @ [\<lparr>d_start = ss, d_end = es, d_data = v\<rparr>]\<rparr>, out)"
  by (simp add: add_data_def py_index_def m_defs)

lemma run_ADU_add_data:
  "run_ADU direction ADU (add_data ss es (''DATA'', rxtx, v # vs)) self =
   run_ADU direction
     (ADU\<lparr>last_read := es, data := data ADU @ [\<lparr>d_start = ss, d_end = es, d_data = v\<rparr>]\<rparr>)
     parse self"
  by (simp add: run_ADU_def add_data_DATA)

lemma select_ADU_current:
  assumes "direction = ''Sc'' \<or> direction = ''Cs''"
    and "selected direction self = Some ADU" and "\<not> startNewFrame ADU"
  shows "select_ADU direction ss self = self"
  using assms by (auto simp: select_ADU_def selected_def)

lemma select_ADU_new_frame:
  assumes "direction = ''Sc'' \<or> direction = ''Cs''"
    and "selected direction self = Some ADU" and "startNewFrame ADU"
  shows "select_ADU direction ss self = update_selected direction (fresh_ADU direction ss) self"
  using assms by (auto simp: select_ADU_def selected_def update_selected_def fresh_ADU_def)

lemma decode_ADU_within:
  assumes "bitlength self = Some bl" and "direction = ''Sc'' \<or> direction = ''Cs''"
    and "selected direction self = Some ADU" and "\<not> startNewFrame ADU"
    and "ss - last_read ADU \<le> bl * 28"
  shows "decode_ADU self ss es pkt direction = Some (run_ADU direction ADU (add_data ss es pkt) self)"
  using assms
  by (subst decode_ADU.simps) (simp add: select_ADU_current split: prod.split)


lemma py_index_last: "xs \<noteq> [] \<Longrightarrow> py_index xs (- 1) = Inr (last xs)"
proof -
  assume "xs \<noteq> []"
  then obtain ys y where xs: "xs = ys @ [y]" by (cases xs rule: rev_cases) simp_all
  have "nat (int (length ys)) = length ys" by simp
  then show ?thesis by (simp add: xs py_index_def nth_append)
qed

lemma close_at_last:
  "data ADU \<noteq> [] \<Longrightarrow>
   bind_m (data_at (- 1)) (\<lambda>last. close ch (d_end last + k)) (ADU, out) =
   close ch (d_end (last (data ADU)) + k) (ADU, out)"
  by (simp add: m_defs py_index_last)

lemma run_ADU_close_at_last:
  "data ADU \<noteq> [] \<Longrightarrow>
   run_ADU direction ADU (bind_m (data_at (- 1)) (\<lambda>last. close ch (d_end last + k))) self =
   run_ADU direction ADU (close ch (d_end (last (data ADU)) + k)) self"
  by (simp add: run_ADU_def close_at_last)

lemma run_ADU_fields:
  assumes "direction = ''Sc'' \<or> direction = ''Cs''" and "run_ADU direction ADU f self = (r, self')"
  shows "bitlength self' = bitlength self" and "ScChannel self' = ScChannel self"
    and "\<exists>ADU'. selected direction self' = Some ADU'"
  using assms by (auto simp: run_ADU_def selected_def update_selected_def split: prod.splits)

lemma run_ADU_update_selected:
  "direction = ''Sc'' \<or> direction = ''Cs'' \<Longrightarrow>
   run_ADU direction A f (update_selected direction B self) = run_ADU direction A f self"
  by (auto simp: run_ADU_def update_selected_def split: prod.splits)

lemma update_selected_fields:
  assumes "direction = ''Sc'' \<or> direction = ''Cs''"
  shows "bitlength (update_selected direction A self) = bitlength self"
    and "selected direction (update_selected direction A self) = Some A"
  using assms by (auto simp: selected_def update_selected_def)

lemma update_selected_twice:
  "direction = ''Sc'' \<or> direction = ''Cs'' \<Longrightarrow>
   update_selected direction A (update_selected direction B self) = update_selected direction A self"
  by (auto simp: update_selected_def)

lemma fresh_ADU_fields:
  "last_read (fresh_ADU direction ss) = ss" "\<not> startNewFrame (fresh_ADU direction ss)"
  "data (fresh_ADU direction ss) = []"
  by (simp_all add: fresh_ADU_def new_ADU_def)

text \<open>A packet that arrives for an ADU whose frame is over goes to a new ADU.\<close>

lemma decode_ADU_new_frame:
  assumes bl: "bitlength self = Some bl" "0 \<le> bl"
    and dir: "direction = ''Sc'' \<or> direction = ''Cs''"
    and cur: "selected direction self = Some ADU" "startNewFrame ADU"
  shows "decode_ADU self ss es pkt direction =
           Some (run_ADU direction (fresh_ADU direction ss) (add_data ss es pkt) self)"
proof -
  let ?self = "update_selected direction (fresh_ADU direction ss) self"
  have "decode_ADU self ss es pkt direction =
          Some (run_ADU direction (fresh_ADU direction ss) (add_data ss es pkt) ?self)"
    using bl
    by (subst decode_ADU.simps)
       (simp add: select_ADU_new_frame [OF dir cur] update_selected_fields [OF dir]
          fresh_ADU_fields split: prod.split)
  then show ?thesis by (simp add: run_ADU_update_selected [OF dir])
qed

lemma decode_ADU_gap:
  assumes bl: "bitlength self = Some bl" "0 \<le> bl"
    and dir: "direction = ''Sc'' \<or> direction = ''Cs''"
    and cur: "selected direction self = Some ADU" "\<not> startNewFrame ADU"
    and gap: "bl * 28 < ss - last_read ADU"
  shows "decode_ADU self ss es pkt direction =
           (case close_current direction ADU bl self of
              (Inl e, self') \<Rightarrow> Some (Inl e, self')
            | (Inr u, self') \<Rightarrow>
                Some (run_ADU direction (fresh_ADU direction ss) (add_data ss es pkt) self'))"
proof -
  obtain r self' where c: "close_current direction ADU bl self = (r, self')"
    by (cases "close_current direction ADU bl self")
  have sel': "\<exists>A. selected direction self' = Some A" and bl': "bitlength self' = Some bl"
    using c cur(1) bl(1) run_ADU_fields [OF dir, of ADU _ self r self']
    by (auto simp: close_current_def split: if_splits)
  then obtain A where A: "selected direction self' = Some A" by blast
  have step: "decode_ADU self ss es pkt direction =
      (case r of Inl e \<Rightarrow> Some (Inl e, self')
       | Inr u \<Rightarrow> decode_ADU (update_selected direction (A\<lparr>startNewFrame := True\<rparr>) self')
                    ss es pkt direction)"
  proof (cases "data ADU = []")
    case True
    with c have "r = Inr ()" "self' = self" by (simp_all add: close_current_def)
    with True A show ?thesis
      using bl gap cur
      by (subst decode_ADU.simps)
         (simp add: select_ADU_current [OF dir cur] split: prod.split)
  next
    case False
    with c have "run_ADU direction ADU
        (close (ScChannel self) (d_end (last (data ADU)) + bl * 3)) self = (r, self')"
      by (simp add: close_current_def)
    with False A show ?thesis
      using bl gap cur
      by (subst decode_ADU.simps)
         (simp add: select_ADU_current [OF dir cur] run_ADU_close_at_last
            split: prod.split sum.split)
  qed
  show ?thesis
  proof (cases r)
    case (Inl e)
    with step c show ?thesis by simp
  next
    case (Inr u)
    let ?self = "update_selected direction (A\<lparr>startNewFrame := True\<rparr>) self'"
    have b: "bitlength ?self = Some bl"
      and a: "selected direction ?self = Some (A\<lparr>startNewFrame := True\<rparr>)"
      using bl' by (simp_all add: update_selected_fields [OF dir])
    have n: "startNewFrame (A\<lparr>startNewFrame := True\<rparr>)" by simp
    have "decode_ADU ?self ss es pkt direction =
            Some (run_ADU direction (fresh_ADU direction ss) (add_data ss es pkt) ?self)"
      by (rule decode_ADU_new_frame [OF b bl(2) dir a n])
    with step c Inr show ?thesis by (simp add: run_ADU_update_selected [OF dir])
  qed
qed

text \<open>
  What \<^verbatim>\<open>decode_ADU\<close> returns for a data byte that arrives for a direction with a current
  ADU, the bit length being known and not negative: within 28 bit lengths of the last
  packet the byte is appended and \<^verbatim>\<open>parse\<close> runs; otherwise the ADU is closed, and if
  \<^verbatim>\<open>close\<close> returns, the byte is the first one of a new ADU, whose \<^verbatim>\<open>parse\<close> runs. An
  exception that leaves \<^verbatim>\<open>close\<close> leaves \<^verbatim>\<open>decode_ADU\<close>.
\<close>

lemma framing_decision:
  assumes "bitlength self = Some bl" and "0 \<le> bl"
    and "direction = ''Sc'' \<or> direction = ''Cs''"
    and "selected direction self = Some ADU" and "\<not> startNewFrame ADU"
  shows "decode_ADU self ss es (''DATA'', rxtx, v # vs) direction =
     (if ss - last_read ADU \<le> bl * 28 then
        Some (run_ADU direction
                (ADU\<lparr>last_read := es,
                     data := data ADU @ [\<lparr>d_start = ss, d_end = es, d_data = v\<rparr>]\<rparr>)
                parse self)
      else
        (case close_current direction ADU bl self of
           (Inl e, self') \<Rightarrow> Some (Inl e, self')
         | (Inr u, self') \<Rightarrow>
             Some (run_ADU direction
                     ((fresh_ADU direction ss)
                        \<lparr>last_read := es,
                         data := [\<lparr>d_start = ss, d_end = es, d_data = v\<rparr>]\<rparr>)
                     parse self')))"
proof (cases "ss - last_read ADU \<le> bl * 28")
  case True
  then show ?thesis
    using decode_ADU_within [OF assms(1,3,4,5) True] by (simp add: run_ADU_add_data)
next
  case False
  then have "bl * 28 < ss - last_read ADU" by simp
  from decode_ADU_gap [OF assms this] False show ?thesis
    by (simp add: run_ADU_add_data fresh_ADU_fields split: prod.split sum.split)
qed

end
